theory Spec2Isabelle
  imports Main
begin

section \<open>Values, errors and HTTP outcomes\<close>

text \<open>
  JavaScript values that travel as JSON. A number is an integer that JavaScript holds
  exactly (magnitude below \<open>2 ^ 53\<close>); fractions are left out, no claim below depends on
  them. An object is its list of members in source order.
\<close>

datatype json =
    JNull
  | JBool bool
  | JNum int
  | JStr string
  | JArr "json list"
  | JObj "(string \<times> json) list"

text \<open>\<^verbatim>\<open>Array.isArray(v)\<close>\<close>

fun isArray :: "json \<Rightarrow> bool" where
  "isArray (JArr _) = True"
| "isArray _ = False"

text \<open>Truthiness, as \<^verbatim>\<open>||\<close> and \<^verbatim>\<open>!\<close> test it.\<close>

fun truthy :: "json \<Rightarrow> bool" where
  "truthy JNull = False"
| "truthy (JBool b) = b"
| "truthy (JNum n) = (n \<noteq> 0)"
| "truthy (JStr s) = (s \<noteq> [])"
| "truthy (JArr _) = True"
| "truthy (JObj _) = True"

text \<open>
  \<^verbatim>\<open>v.message\<close> on a non-null value: \<open>None\<close> is \<^verbatim>\<open>undefined\<close>. When a key is repeated
  in the parsed text the last member wins.
\<close>

fun get_message :: "json \<Rightarrow> json option" where
  "get_message (JObj members) = map_of (rev members) ''message''"
| "get_message _ = None"

text \<open>
  The text of a value as \<^verbatim>\<open>JSON.stringify\<close> writes it. The encoding itself is a library
  function and is not unfolded: the constructor stands for the serialised text.
\<close>

datatype wire = JSON_stringify json

text \<open>
  Decimal text of a number, as \<^verbatim>\<open>ToString\<close> and a template literal print it. An integer
  of magnitude below \<open>10 ^ 21\<close> prints as its digits, and the numbers meant here are far
  below: parsed integers, and sums and differences of clock readings, which
  \<^verbatim>\<open>Date.now()\<close> keeps between 0 and \<open>8.64 * 10 ^ 15\<close>.
\<close>

fun decimal_digits :: "nat \<Rightarrow> string \<Rightarrow> string" where
  "decimal_digits n later =
     (if n < 10 then char_of (n + 48) # later
      else decimal_digits (n div 10) (char_of (n mod 10 + 48) # later))"

definition Number_toString :: "int \<Rightarrow> string" where
  "Number_toString v =
     (if 0 \<le> v then decimal_digits (nat v) [] else CHR ''-'' # decimal_digits (nat (- v)) [])"

text \<open>
  \<^verbatim>\<open>ToString(v)\<close> for a value that came out of \<^verbatim>\<open>JSON.parse\<close>; \<open>None\<close> is the
  \<^verbatim>\<open>TypeError\<close> of a value that cannot be converted. A parsed object inherits
  \<^verbatim>\<open>Object.prototype.toString\<close> and prints as \<^verbatim>\<open>[object Object]\<close>, unless it has a member
  of its own called \<^verbatim>\<open>toString\<close>: that member is never callable, \<^verbatim>\<open>valueOf\<close> yields no
  primitive either, and the conversion throws. An array prints its elements joined by
  commas, \<^verbatim>\<open>null\<close> elements as the empty string.
\<close>

fun ToString :: "json \<Rightarrow> string option"
  and join_elements :: "json list \<Rightarrow> string option" where
  "ToString JNull = Some ''null''"
| "ToString (JBool b) = Some (if b then ''true'' else ''false'')"
| "ToString (JNum n) = Some (Number_toString n)"
| "ToString (JStr s) = Some s"
| "ToString (JArr elements) = join_elements elements"
| "ToString (JObj members) =
     (if ''toString'' \<in> fst ` set members then None else Some ''[object Object]'')"
| "join_elements [] = Some []"
| "join_elements (element # others) =
     (case (if element = JNull then Some [] else ToString element) of
        None \<Rightarrow> None
      | Some text \<Rightarrow>
          if others = [] then Some text
          else (case join_elements others of
                  None \<Rightarrow> None
                | Some later \<Rightarrow> Some (text @ '','' @ later)))"

text \<open>
  A thrown error object with the properties the code reads or sets. \<open>message\<close> is the
  string that the \<^verbatim>\<open>Error\<close> constructor stores; \<open>status = None\<close> is an error object
  without a \<^verbatim>\<open>status\<close> property.
\<close>

record js_error =
  name :: string
  message :: string
  status :: "nat option"
  data :: "json option"

definition Error :: "string \<Rightarrow> js_error" where
  "Error msg = \<lparr>name = ''Error'', message = msg, status = None, data = None\<rparr>"

definition APIError :: "nat \<Rightarrow> string \<Rightarrow> js_error" where
  "APIError st msg = \<lparr>name = ''APIError'', message = msg, status = Some st, data = None\<rparr>"

definition ValidationError :: "string \<Rightarrow> json \<Rightarrow> js_error" where
  "ValidationError msg d = (APIError 400 msg)\<lparr>name := ''ValidationError'', data := Some d\<rparr>"

definition PermissionError :: "string \<Rightarrow> js_error" where
  "PermissionError msg = (APIError 403 msg)\<lparr>name := ''PermissionError''\<rparr>"

definition ConflictError :: "string \<Rightarrow> js_error" where
  "ConflictError msg = (APIError 409 msg)\<lparr>name := ''ConflictError''\<rparr>"

definition RateLimitError :: "string \<Rightarrow> js_error" where
  "RateLimitError msg = \<lparr>name = ''RateLimitError'', message = msg, status = None, data = None\<rparr>"

text \<open>Errors raised by the runtime and by the HTTP library; none has a \<^verbatim>\<open>status\<close>.\<close>

definition FetchError :: "string \<Rightarrow> js_error" where
  "FetchError msg = \<lparr>name = ''FetchError'', message = msg, status = None, data = None\<rparr>"

definition TypeError :: "string \<Rightarrow> js_error" where
  "TypeError msg = \<lparr>name = ''TypeError'', message = msg, status = None, data = None\<rparr>"

text \<open>
  \<^verbatim>\<open>throw new APIError(status, value)\<close>, where \<open>value\<close> is any parsed value: the constructor
  passes it to \<^verbatim>\<open>super(message)\<close>, which converts it to a string before \<open>status\<close> and
  \<open>name\<close> are set. When the conversion throws, that \<^verbatim>\<open>TypeError\<close> is the error raised.
\<close>

definition throw_new_APIError :: "nat \<Rightarrow> json \<Rightarrow> js_error" where
  "throw_new_APIError st v =
     (case ToString v of
        None \<Rightarrow> TypeError ''Cannot convert object to primitive value''
      | Some text \<Rightarrow> APIError st text)"

text \<open>
  What one call of \<^verbatim>\<open>fetch\<close> yields: the promise rejects (no HTTP response: DNS failure,
  connection refused, ...) or resolves to a response. \<open>json_body = None\<close> is a body
  that \<^verbatim>\<open>response.json()\<close> cannot decode.
\<close>

record http_response =
  status :: nat
  statusText :: string
  json_body :: "json option"

datatype fetch_result = NetworkFailure string | Response http_response

text \<open>\<^verbatim>\<open>response.ok\<close>: the status is in the range 200-299.\<close>

definition ok :: "http_response \<Rightarrow> bool" where
  "ok response = (200 \<le> http_response.status response \<and> http_response.status response \<le> 299)"

section \<open>GatherAPIClient\<close>

record retry_config =
  maxRetries :: nat
  backoffMs :: nat
  retryCondition :: "js_error \<Rightarrow> bool"

record GatherAPIClient =
  apiKey :: string
  baseUrl :: string
  retryConfig :: retry_config

text \<open>
  \<^verbatim>\<open>(error) => error.status >= 500 || error.status === 429\<close>.
  With no \<^verbatim>\<open>status\<close> property both comparisons are false.
\<close>

definition default_retryCondition :: "js_error \<Rightarrow> bool" where
  "default_retryCondition error =
     (case js_error.status error of None \<Rightarrow> False | Some st \<Rightarrow> st \<ge> 500 \<or> st = 429)"

text \<open>\<^verbatim>\<open>a || b\<close> on optional strings: the empty string and \<^verbatim>\<open>undefined\<close> are falsy.\<close>

fun or_else :: "string option \<Rightarrow> string option \<Rightarrow> string option" where
  "or_else (Some a) b = (if a \<noteq> [] then Some a else b)"
| "or_else None b = b"

text \<open>
  The constructor. \<open>env\<close> is \<^verbatim>\<open>process.env\<close>; the argument is \<open>None\<close> when the caller
  passes nothing. It performs no request: it has no access to the network at all.
\<close>

definition or_default :: "string option \<Rightarrow> string \<Rightarrow> string" where
  "or_default a d = (case a of Some v \<Rightarrow> (if v \<noteq> [] then v else d) | None \<Rightarrow> d)"

definition new_GatherAPIClient :: "(string \<rightharpoonup> string) \<Rightarrow> string option \<Rightarrow> js_error + GatherAPIClient" where
  "new_GatherAPIClient env key =
     (let this_apiKey = or_else key (env ''GATHER_API_KEY'');
          this_baseUrl = or_default (env ''GATHER_BASE_URL'') ''https://gather.town/api/v2'';
          this_retryConfig = \<lparr>maxRetries = 3, backoffMs = 1000, retryCondition = default_retryCondition\<rparr>
      in case this_apiKey of
           None \<Rightarrow> Inl (Error ''Gather.Town API key is required'')
         | Some k \<Rightarrow>
             if k = [] then Inl (Error ''Gather.Town API key is required'')
             else Inr \<lparr>apiKey = k, baseUrl = this_baseUrl, retryConfig = this_retryConfig\<rparr>)"

text \<open>
  The options of a request; \<open>http_method\<close> is the property \<^verbatim>\<open>method\<close>.
  \<^verbatim>\<open>{ ...defaultOptions, ...options }\<close> takes each property from \<open>options\<close> when it is
  there, so \<open>headers\<close> given by the caller replace the default headers as a whole.
\<close>

record request_options =
  http_method :: "string option"
  body :: "wire option"
  headers :: "(string \<times> string) list option"

definition no_options :: request_options where
  "no_options = \<lparr>http_method = None, body = None, headers = None\<rparr>"

definition defaultOptions :: "GatherAPIClient \<Rightarrow> request_options" where
  "defaultOptions this =
     \<lparr>http_method = None, body = None,
      headers = Some [(''Authorization'', ''Bearer '' @ apiKey this),
                      (''Content-Type'', ''application/json''),
                      (''User-Agent'', ''FC-GuestList-POC/1.0'')]\<rparr>"

definition merge_options :: "request_options \<Rightarrow> request_options \<Rightarrow> request_options" where
  "merge_options defaults options =
     \<lparr>http_method = (case http_method options of Some m \<Rightarrow> Some m | None \<Rightarrow> http_method defaults),
      body = (case body options of Some b \<Rightarrow> Some b | None \<Rightarrow> body defaults),
      headers = (case headers options of Some h \<Rightarrow> Some h | None \<Rightarrow> headers defaults)\<rparr>"

text \<open>
  Effects are recorded in order: each call of \<^verbatim>\<open>fetch\<close> with its URL and options, and each
  \<^verbatim>\<open>delay(ms)\<close>. Console output is not recorded.
\<close>

datatype event = Fetch string request_options | Delay nat

fun is_Fetch :: "event \<Rightarrow> bool" where
  "is_Fetch (Fetch _ _) = True"
| "is_Fetch (Delay _) = False"

definition fetch_count :: "event list \<Rightarrow> nat" where
  "fetch_count evs = length (filter is_Fetch evs)"

text \<open>
  The running program: the client object, the remote side, and the effects so far.
  \<open>server n url options\<close> is what the \<open>n\<close>-th \<^verbatim>\<open>fetch\<close> of the run (counted from 0)
  yields for that request; it is arbitrary, so every behaviour of the network is covered.
\<close>

record world =
  client :: GatherAPIClient
  server :: "nat \<Rightarrow> string \<Rightarrow> request_options \<Rightarrow> fetch_result"
  events :: "event list"

definition fetch :: "string \<Rightarrow> request_options \<Rightarrow> world \<Rightarrow> fetch_result \<times> world" where
  "fetch url requestOptions w =
     (server w (fetch_count (events w)) url requestOptions,
      w\<lparr>events := events w @ [Fetch url requestOptions]\<rparr>)"

definition delay :: "nat \<Rightarrow> world \<Rightarrow> world" where
  "delay ms w = w\<lparr>events := events w @ [Delay ms]\<rparr>"

text \<open>\<^verbatim>\<open>responseData.message || text\<close>, for \<open>responseData\<close> other than \<^verbatim>\<open>null\<close>.\<close>

definition message_or :: "json \<Rightarrow> string \<Rightarrow> json" where
  "message_or responseData text =
     (case get_message responseData of
        Some m \<Rightarrow> if truthy m then m else JStr text
      | None \<Rightarrow> JStr text)"

text \<open>
  What the \<^verbatim>\<open>try\<close> block makes of the result of \<^verbatim>\<open>fetch\<close>: \<open>Inl\<close> is the error caught by
  the \<^verbatim>\<open>catch\<close> clause, \<open>Inr\<close> the value returned. The body is decoded before
  \<^verbatim>\<open>response.ok\<close> is looked at, and \<^verbatim>\<open>responseData.message\<close> is read only when the
  response is not ok; on \<^verbatim>\<open>null\<close> that read throws, and so does the construction of the
  \<^verbatim>\<open>APIError\<close> when the message cannot be converted to a string. Each of these errors
  is raised inside the \<^verbatim>\<open>try\<close> block and reaches the \<^verbatim>\<open>catch\<close> clause.
\<close>

definition try_block :: "fetch_result \<Rightarrow> js_error + json" where
  "try_block outcome =
     (case outcome of
        NetworkFailure msg \<Rightarrow> Inl (FetchError msg)
      | Response response \<Rightarrow>
          (case json_body response of
             None \<Rightarrow> Inl (FetchError ''invalid json response body'')
           | Some responseData \<Rightarrow>
               if \<not> ok response then
                 (if responseData = JNull
                  then Inl (TypeError ''Cannot read properties of null'')
                  else Inl (throw_new_APIError (http_response.status response)
                              (message_or responseData (statusText response))))
               else Inr responseData))"

text \<open>
  The \<^verbatim>\<open>for\<close> loop of \<^verbatim>\<open>makeRequest\<close>, entered with the loop variable \<open>attempt\<close>.
  The result \<open>Inr None\<close> is \<^verbatim>\<open>undefined\<close>, returned when the loop condition fails.
\<close>

function makeRequest_loop ::
  "string \<Rightarrow> request_options \<Rightarrow> nat \<Rightarrow> world \<Rightarrow> (js_error + json option) \<times> world" where
  "makeRequest_loop url requestOptions attempt w =
     (if attempt \<le> maxRetries (retryConfig (client w)) then
        (case fetch url requestOptions w of (outcome, w1) \<Rightarrow>
           (case try_block outcome of
              Inr responseData \<Rightarrow> (Inr (Some responseData), w1)
            | Inl error \<Rightarrow>
                if attempt = maxRetries (retryConfig (client w1)) \<or>
                   \<not> retryCondition (retryConfig (client w1)) error
                then (Inl error, w1)
                else
                  (let backoffTime = backoffMs (retryConfig (client w1)) * 2 ^ attempt
                   in makeRequest_loop url requestOptions (attempt + 1) (delay backoffTime w1))))
      else (Inr None, w))"
  by pat_completeness auto
termination
  by (relation "measure (\<lambda>(url, requestOptions, attempt, w).
         Suc (maxRetries (retryConfig (client w))) - attempt)")
     (auto simp: fetch_def delay_def)

definition makeRequest ::
  "string \<Rightarrow> request_options \<Rightarrow> world \<Rightarrow> (js_error + json option) \<times> world" where
  "makeRequest endpoint options w =
     (let url = baseUrl (client w) @ endpoint;
          requestOptions = merge_options (defaultOptions (client w)) options
      in makeRequest_loop url requestOptions 0 w)"

subsection \<open>Convenience methods\<close>

text \<open>Identifiers are spliced into the path by a template literal; they are strings here.\<close>

definition createSpace :: "json \<Rightarrow> world \<Rightarrow> (js_error + json option) \<times> world" where
  "createSpace spaceConfig w =
     makeRequest ''/spaces''
       \<lparr>http_method = Some ''POST'', body = Some (JSON_stringify spaceConfig), headers = None\<rparr> w"

definition getSpace :: "string \<Rightarrow> world \<Rightarrow> (js_error + json option) \<times> world" where
  "getSpace spaceId w = makeRequest (''/spaces/'' @ spaceId) no_options w"

definition updateSpace :: "string \<Rightarrow> json \<Rightarrow> world \<Rightarrow> (js_error + json option) \<times> world" where
  "updateSpace spaceId updates w =
     makeRequest (''/spaces/'' @ spaceId)
       \<lparr>http_method = Some ''PUT'', body = Some (JSON_stringify updates), headers = None\<rparr> w"

text \<open>The body that \<^verbatim>\<open>addGuest\<close> serialises.\<close>

definition addGuest_payload :: "json \<Rightarrow> json" where
  "addGuest_payload guestConfig =
     JObj [(''guests'', if isArray guestConfig then guestConfig else JArr [guestConfig]),
           (''sendInvitation'', JBool True)]"

definition addGuest :: "string \<Rightarrow> json \<Rightarrow> world \<Rightarrow> (js_error + json option) \<times> world" where
  "addGuest spaceId guestConfig w =
     (case makeRequest (''/spaces/'' @ spaceId @ ''/guests'')
             \<lparr>http_method = Some ''POST'',
              body = Some (JSON_stringify (addGuest_payload guestConfig)),
              headers = None\<rparr> w of
        (Inr result, w1) \<Rightarrow> (Inr result, w1)
      | (Inl error, w1) \<Rightarrow>
          if js_error.status error = Some 400 then
            (Inl (ValidationError ''Invalid guest configuration'' guestConfig), w1)
          else if js_error.status error = Some 403 then
            (Inl (PermissionError ''Insufficient permissions to add guests''), w1)
          else if js_error.status error = Some 409 then
            (Inl (ConflictError ''Guest already exists in space''), w1)
          else (Inl error, w1))"

definition getGuestList :: "string \<Rightarrow> world \<Rightarrow> (js_error + json option) \<times> world" where
  "getGuestList spaceId w = makeRequest (''/spaces/'' @ spaceId @ ''/guests'') no_options w"

definition updateGuest ::
  "string \<Rightarrow> string \<Rightarrow> json \<Rightarrow> world \<Rightarrow> (js_error + json option) \<times> world" where
  "updateGuest spaceId guestId updates w =
     makeRequest (''/spaces/'' @ spaceId @ ''/guests/'' @ guestId)
       \<lparr>http_method = Some ''PUT'', body = Some (JSON_stringify updates), headers = None\<rparr> w"

definition removeGuest :: "string \<Rightarrow> string \<Rightarrow> world \<Rightarrow> (js_error + json option) \<times> world" where
  "removeGuest spaceId guestId w =
     makeRequest (''/spaces/'' @ spaceId @ ''/guests/'' @ guestId)
       \<lparr>http_method = Some ''DELETE'', body = None, headers = None\<rparr> w"

definition sendInvitation :: "json \<Rightarrow> world \<Rightarrow> (js_error + json option) \<times> world" where
  "sendInvitation invitationConfig w =
     makeRequest ''/invitations''
       \<lparr>http_method = Some ''POST'', body = Some (JSON_stringify invitationConfig), headers = None\<rparr> w"

definition createWebhook :: "json \<Rightarrow> world \<Rightarrow> (js_error + json option) \<times> world" where
  "createWebhook webhookConfig w =
     makeRequest ''/webhooks''
       \<lparr>http_method = Some ''POST'', body = Some (JSON_stringify webhookConfig), headers = None\<rparr> w"

text \<open>Every method of the class, as one call with its arguments.\<close>

datatype operation =
    MakeRequest string request_options
  | CreateSpace json
  | GetSpace string
  | UpdateSpace string json
  | AddGuest string json
  | GetGuestList string
  | UpdateGuest string string json
  | RemoveGuest string string
  | SendInvitation json
  | CreateWebhook json
  | DelayFor nat

fun perform :: "operation \<Rightarrow> world \<Rightarrow> (js_error + json option) \<times> world" where
  "perform (MakeRequest endpoint options) w = makeRequest endpoint options w"
| "perform (CreateSpace spaceConfig) w = createSpace spaceConfig w"
| "perform (GetSpace spaceId) w = getSpace spaceId w"
| "perform (UpdateSpace spaceId updates) w = updateSpace spaceId updates w"
| "perform (AddGuest spaceId guestConfig) w = addGuest spaceId guestConfig w"
| "perform (GetGuestList spaceId) w = getGuestList spaceId w"
| "perform (UpdateGuest spaceId guestId updates) w = updateGuest spaceId guestId updates w"
| "perform (RemoveGuest spaceId guestId) w = removeGuest spaceId guestId w"
| "perform (SendInvitation invitationConfig) w = sendInvitation invitationConfig w"
| "perform (CreateWebhook webhookConfig) w = createWebhook webhookConfig w"
| "perform (DelayFor ms) w = (Inr None, delay ms w)"

section \<open>RateLimitManager\<close>

text \<open>
  \<open>usage\<close> is a \<^verbatim>\<open>Map\<close> from timestamps to \<^verbatim>\<open>true\<close>: its keys, distinct, in insertion order.
  Times are milliseconds as \<^verbatim>\<open>Date.now()\<close> gives them; \<open>window\<close> is in seconds.
\<close>

record rate_limit =
  requests :: nat
  window :: int

record RateLimitManager =
  limits :: "(string \<times> rate_limit) list"
  usage :: "int list"

definition new_RateLimitManager :: RateLimitManager where
  "new_RateLimitManager =
     \<lparr>limits = [(''standard'', \<lparr>requests = 1000, window = 3600\<rparr>),
                (''premium'', \<lparr>requests = 5000, window = 3600\<rparr>),
                (''burst'', \<lparr>requests = 100, window = 60\<rparr>)],
      usage = []\<rparr>"

text \<open>\<^verbatim>\<open>map.set(key, true)\<close>: a key already present is kept where it is.\<close>

definition map_set :: "int \<Rightarrow> int list \<Rightarrow> int list" where
  "map_set key keys = (if key \<in> set keys then keys else keys @ [key])"

text \<open>\<^verbatim>\<open>Math.min(...keys)\<close>: \<open>None\<close> is \<^verbatim>\<open>Infinity\<close>, the minimum of no numbers.\<close>

fun Math_min :: "int list \<Rightarrow> int option" where
  "Math_min [] = None"
| "Math_min (k # ks) = Some (fold min ks k)"

text \<open>
  The property names that every object inherits from \<^verbatim>\<open>Object.prototype\<close> in Node.
  \<^verbatim>\<open>this.limits[tier]\<close> finds the inherited function or object for them, which has
  neither \<^verbatim>\<open>window\<close> nor \<^verbatim>\<open>requests\<close>.
\<close>

definition Object_prototype_names :: "string list" where
  "Object_prototype_names =
     [''constructor'', ''__defineGetter__'', ''__defineSetter__'', ''hasOwnProperty'',
      ''__lookupGetter__'', ''__lookupSetter__'', ''isPrototypeOf'', ''propertyIsEnumerable'',
      ''toString'', ''valueOf'', ''__proto__'', ''toLocaleString'']"

text \<open>
  \<^verbatim>\<open>checkLimit(tier)\<close> at the time \<open>now = Date.now()\<close>. A missing argument is
  \<^verbatim>\<open>'standard'\<close>. A tier that is no property of \<open>limits\<close> at all makes
  \<^verbatim>\<open>limit.window\<close> throw. For an inherited name \<^verbatim>\<open>windowStart\<close> is \<^verbatim>\<open>NaN\<close>, so no
  entry compares below it and none is deleted, and \<^verbatim>\<open>size >= undefined\<close> is false, so
  the call is recorded and accepted.
\<close>

definition checkLimit :: "string option \<Rightarrow> int \<Rightarrow> RateLimitManager \<Rightarrow> (js_error + bool) \<times> RateLimitManager" where
  "checkLimit tier_arg now this =
     (let tier = (case tier_arg of None \<Rightarrow> ''standard'' | Some t \<Rightarrow> t)
      in case map_of (limits this) tier of
           None \<Rightarrow>
             if tier \<in> set Object_prototype_names
             then (Inr True, this\<lparr>usage := map_set now (usage this)\<rparr>)
             else (Inl (TypeError ''Cannot read properties of undefined''), this)
         | Some limit \<Rightarrow>
             (let windowStart = now - window limit * 1000;
                  this1 = this\<lparr>usage := filter (\<lambda>timestamp. \<not> timestamp < windowStart) (usage this)\<rparr>
              in if length (usage this1) \<ge> requests limit then
                   (let waitText =
                          (case Math_min (usage this1) of
                             None \<Rightarrow> ''Infinity''
                           | Some oldestRequest \<Rightarrow>
                               (let resetTime = oldestRequest + window limit * 1000;
                                    waitTime = resetTime - now
                                in Number_toString waitTime))
                    in (Inl (RateLimitError (''Rate limit exceeded. Reset in '' @ waitText @ ''ms'')), this1))
                 else (Inr True, this1\<lparr>usage := map_set now (usage this1)\<rparr>)))"

section \<open>FCGuestManager.chunkArray\<close>

text \<open>\<^verbatim>\<open>array.slice(start, end)\<close> for indices that are not negative.\<close>

definition slice :: "'a list \<Rightarrow> nat \<Rightarrow> nat \<Rightarrow> 'a list" where
  "slice array start end' = drop start (take end' array)"

text \<open>
  The loop of \<^verbatim>\<open>chunkArray\<close>. With \<open>size = 0\<close> the index never moves and the loop does not
  end, so the function is partial: \<open>None\<close> is a call that does not return. The size is a
  natural number; the only caller passes 10.
\<close>

partial_function (option) chunkArray_loop ::
  "'a list \<Rightarrow> nat \<Rightarrow> nat \<Rightarrow> 'a list list \<Rightarrow> 'a list list option" where
  "chunkArray_loop array size' i chunks =
     (if i < length array
      then chunkArray_loop array size' (i + size') (chunks @ [slice array i (i + size')])
      else Some chunks)"

definition chunkArray :: "'a list \<Rightarrow> nat \<Rightarrow> 'a list list option" where
  "chunkArray array size' = chunkArray_loop array size' 0 []"

declare chunkArray_loop.simps [code]

section \<open>Reference traces and concrete runs\<close>

text \<open>
  The effects of the attempts numbered \<open>a\<close> to \<open>n\<close>: every attempt before the \<open>n\<close>-th is one
  request followed by its wait, the \<open>n\<close>-th is a request alone.
\<close>

definition attempts_trace :: "string \<Rightarrow> request_options \<Rightarrow> nat \<Rightarrow> nat \<Rightarrow> nat \<Rightarrow> event list" where
  "attempts_trace url requestOptions backoff a n =
     concat (map (\<lambda>k. [Fetch url requestOptions, Delay (backoff * 2 ^ k)]) [a..<n]) @
     [Fetch url requestOptions]"

text \<open>A sequence of \<^verbatim>\<open>checkLimit\<close> calls on one manager, one for each reading of the clock.\<close>

fun checkLimit_calls ::
  "string option \<Rightarrow> int list \<Rightarrow> RateLimitManager \<Rightarrow> (js_error + bool) list \<times> RateLimitManager" where
  "checkLimit_calls tier [] this = ([], this)"
| "checkLimit_calls tier (now # later) this =
     (case checkLimit tier now this of (r, this1) \<Rightarrow>
        (case checkLimit_calls tier later this1 of (rs, this2) \<Rightarrow> (r # rs, this2)))"

text \<open>Concrete inputs: a client as the constructor builds it, and simple remote sides.\<close>

definition demo_client :: GatherAPIClient where
  "demo_client =
     \<lparr>apiKey = ''secret'', baseUrl = ''https://gather.town/api/v2'',
      retryConfig = \<lparr>maxRetries = 3, backoffMs = 1000, retryCondition = default_retryCondition\<rparr>\<rparr>"

definition reply :: "nat \<Rightarrow> string \<Rightarrow> json option \<Rightarrow> fetch_result" where
  "reply st text b = Response \<lparr>status = st, statusText = text, json_body = b\<rparr>"

definition always :: "fetch_result \<Rightarrow> nat \<Rightarrow> string \<Rightarrow> request_options \<Rightarrow> fetch_result" where
  "always outcome n url requestOptions = outcome"

definition first_then ::
  "fetch_result \<Rightarrow> fetch_result \<Rightarrow> nat \<Rightarrow> string \<Rightarrow> request_options \<Rightarrow> fetch_result" where
  "first_then outcome later n url requestOptions = (if n = 0 then outcome else later)"

definition start :: "(nat \<Rightarrow> string \<Rightarrow> request_options \<Rightarrow> fetch_result) \<Rightarrow> world" where
  "start remote = \<lparr>client = demo_client, server = remote, events = []\<rparr>"

section \<open>Properties of the request loop\<close>

declare makeRequest_loop.simps [simp del]

lemma demo_client_constructed:
  "new_GatherAPIClient (map_of []) (Some ''secret'') = Inr demo_client"
  by (simp add: new_GatherAPIClient_def demo_client_def or_default_def)

lemma fetch_count_snoc:
  "fetch_count (evs @ [Fetch url ro]) = Suc (fetch_count evs)"
  "fetch_count (evs @ [Delay ms]) = fetch_count evs"
  by (simp_all add: fetch_count_def)

lemma attempts_trace_last: "attempts_trace url ro b n n = [Fetch url ro]"
  by (simp add: attempts_trace_def)

lemma attempts_trace_step:
  "a < n \<Longrightarrow>
   attempts_trace url ro b a n = Fetch url ro # Delay (b * 2 ^ a) # attempts_trace url ro b (Suc a) n"
  by (simp add: attempts_trace_def upt_conv_Cons)

text \<open>The loop changes neither the client object nor the remote side.\<close>

lemma makeRequest_loop_frame:
  "client (snd (makeRequest_loop url ro a w)) = client w \<and>
   server (snd (makeRequest_loop url ro a w)) = server w"
proof (induction url ro a w rule: makeRequest_loop.induct)
  case (1 url ro a w)
  show ?case
    apply (subst (1 2) makeRequest_loop.simps)
    using 1
    apply (auto simp: fetch_def delay_def Let_def split: sum.splits prod.splits)
    done
qed

text \<open>
  A run of the loop from attempt \<open>a\<close>: when the attempts before the \<open>n\<close>-th fail with errors
  the retry condition accepts, and the \<open>n\<close>-th either succeeds or fails for good, the loop
  ends at the \<open>n\<close>-th attempt with that outcome.
\<close>

lemma makeRequest_loop_run:
  assumes "a \<le> n" and "n \<le> maxRetries (retryConfig (client w))"
    and "\<And>k. a \<le> k \<Longrightarrow> k < n \<Longrightarrow>
           \<exists>e. try_block (server w (fetch_count (events w) + (k - a)) url ro) = Inl e \<and>
               retryCondition (retryConfig (client w)) e"
    and "try_block (server w (fetch_count (events w) + (n - a)) url ro) = fin"
    and "case fin of Inr d \<Rightarrow> True
         | Inl e \<Rightarrow> n = maxRetries (retryConfig (client w)) \<or>
                    \<not> retryCondition (retryConfig (client w)) e"
  shows "makeRequest_loop url ro a w =
           (map_sum id Some fin,
            w\<lparr>events := events w @ attempts_trace url ro (backoffMs (retryConfig (client w))) a n\<rparr>)"
  using assms
proof (induction "n - a" arbitrary: a w)
  case 0
  then have [simp]: "a = n" by simp
  from 0 show ?case
    by (subst makeRequest_loop.simps)
       (auto simp: fetch_def attempts_trace_last split: sum.splits)
next
  case (Suc d)
  then have lt: "a < n" by simp
  let ?w1 = "w\<lparr>events := events w @ [Fetch url ro]\<rparr>"
  let ?w2 = "delay (backoffMs (retryConfig (client w)) * 2 ^ a) ?w1"
  from Suc.prems(3)[of a] lt obtain e where
    e: "try_block (server w (fetch_count (events w)) url ro) = Inl e"
       "retryCondition (retryConfig (client w)) e" by auto
  have step: "makeRequest_loop url ro a w = makeRequest_loop url ro (Suc a) ?w2"
    using e lt Suc.prems(2)
    by (subst makeRequest_loop.simps) (simp add: fetch_def Let_def)
  have cl: "client ?w2 = client w"
    by (simp add: delay_def)
  have cnt: "fetch_count (events ?w2) = Suc (fetch_count (events w))"
    by (simp add: delay_def fetch_count_def)
  have "makeRequest_loop url ro (Suc a) ?w2 =
          (map_sum id Some fin,
           ?w2\<lparr>events := events ?w2 @
              attempts_trace url ro (backoffMs (retryConfig (client ?w2))) (Suc a) n\<rparr>)"
  proof (rule Suc.hyps(1))
    show "d = n - Suc a" using Suc.hyps(2) by simp
    show "Suc a \<le> n" using lt by simp
    show "n \<le> maxRetries (retryConfig (client ?w2))" using Suc.prems(2) by (simp add: delay_def)
    have "fetch_count (events w) + (n - a) = fetch_count (events ?w2) + (n - Suc a)"
      using lt unfolding cnt by simp
    with Suc.prems(4)
    show "try_block (server ?w2 (fetch_count (events ?w2) + (n - Suc a)) url ro) = fin"
      by (simp add: delay_def)
    show "case fin of Inr d \<Rightarrow> True
         | Inl e \<Rightarrow> n = maxRetries (retryConfig (client ?w2)) \<or>
                    \<not> retryCondition (retryConfig (client ?w2)) e"
      using Suc.prems(5) unfolding cl .
    fix k assume k: "Suc a \<le> k" "k < n"
    have "fetch_count (events w) + (k - a) = fetch_count (events ?w2) + (k - Suc a)"
      using k unfolding cnt by simp
    with Suc.prems(3)[of k] k
    show "\<exists>e. try_block (server ?w2 (fetch_count (events ?w2) + (k - Suc a)) url ro) = Inl e \<and>
               retryCondition (retryConfig (client ?w2)) e"
      by (simp add: delay_def)
  qed
  then show ?case
    unfolding step by (simp add: delay_def attempts_trace_step[OF lt])
qed

section \<open>Claims about the request loop\<close>

text \<open>
  C6. When the first response has a status in 200-299 and a body that decodes as JSON,
  \<^verbatim>\<open>makeRequest\<close> returns the decoded body after that single request: the only effect is
  one \<^verbatim>\<open>fetch\<close>, with no wait and no second attempt.
\<close>

theorem makeRequest_success_first_attempt:
  assumes "server w (fetch_count (events w)) (baseUrl (client w) @ endpoint)
             (merge_options (defaultOptions (client w)) options) = Response response"
    and "ok response"
    and "json_body response = Some decoded"
  shows "makeRequest endpoint options w =
           (Inr (Some decoded),
            w\<lparr>events := events w @
               [Fetch (baseUrl (client w) @ endpoint)
                  (merge_options (defaultOptions (client w)) options)]\<rparr>)"
proof -
  let ?url = "baseUrl (client w) @ endpoint"
  let ?ro = "merge_options (defaultOptions (client w)) options"
  have fin: "try_block (server w (fetch_count (events w) + (0 - 0)) ?url ?ro) = Inr decoded"
    using assms by (simp add: try_block_def)
  have "makeRequest_loop ?url ?ro 0 w =
          (map_sum id Some (Inr decoded),
           w\<lparr>events := events w @ attempts_trace ?url ?ro (backoffMs (retryConfig (client w))) 0 0\<rparr>)"
    by (rule makeRequest_loop_run[OF _ _ _ fin]) simp_all
  then show ?thesis
    by (simp add: makeRequest_def attempts_trace_last)
qed

theorem makeRequest_success_first_attempt_witness:
  "ok \<lparr>status = 200, statusText = ''OK'', json_body = Some (JObj [(''id'', JStr ''s1'')])\<rparr> \<and>
   makeRequest ''/spaces/s1'' no_options
       (start (always (reply 200 ''OK'' (Some (JObj [(''id'', JStr ''s1'')]))))) =
     (Inr (Some (JObj [(''id'', JStr ''s1'')])),
      (start (always (reply 200 ''OK'' (Some (JObj [(''id'', JStr ''s1'')])))))
        \<lparr>events := [Fetch ''https://gather.town/api/v2/spaces/s1''
                      (merge_options (defaultOptions demo_client) no_options)]\<rparr>)"
  using makeRequest_success_first_attempt
    [of "start (always (reply 200 ''OK'' (Some (JObj [(''id'', JStr ''s1'')]))))" "''/spaces/s1''" no_options
        "\<lparr>status = 200, statusText = ''OK'', json_body = Some (JObj [(''id'', JStr ''s1'')])\<rparr>"
        "JObj [(''id'', JStr ''s1'')]"]
  by (simp add: start_def always_def reply_def ok_def demo_client_def)

text \<open>The number of requests in a reference trace.\<close>

lemma fetch_count_attempts_trace:
  "a \<le> n \<Longrightarrow> fetch_count (attempts_trace url ro b a n) = Suc (n - a)"
proof (induction "n - a" arbitrary: a)
  case 0
  then show ?case by (simp add: attempts_trace_last fetch_count_def)
next
  case (Suc d)
  then have lt: "a < n" by simp
  from Suc.hyps(1)[of "Suc a"] Suc.hyps(2) lt
  have "fetch_count (attempts_trace url ro b (Suc a) n) = Suc (n - Suc a)" by simp
  with lt show ?case
    by (simp add: attempts_trace_step[OF lt] fetch_count_def)
qed

lemma fetch_count_append: "fetch_count (xs @ ys) = fetch_count xs + fetch_count ys"
  by (simp add: fetch_count_def)

text \<open>A failure that the retry condition rejects ends the call at once.\<close>

lemma makeRequest_fails_at_once:
  assumes "try_block (server w (fetch_count (events w)) (baseUrl (client w) @ endpoint)
             (merge_options (defaultOptions (client w)) options)) = Inl e"
    and "\<not> retryCondition (retryConfig (client w)) e"
  shows "makeRequest endpoint options w =
           (Inl e, w\<lparr>events := events w @
               [Fetch (baseUrl (client w) @ endpoint)
                  (merge_options (defaultOptions (client w)) options)]\<rparr>)"
proof -
  let ?url = "baseUrl (client w) @ endpoint"
  let ?ro = "merge_options (defaultOptions (client w)) options"
  have fin: "try_block (server w (fetch_count (events w) + (0 - 0)) ?url ?ro) = Inl e"
    using assms(1) by simp
  have "makeRequest_loop ?url ?ro 0 w =
          (map_sum id Some (Inl e),
           w\<lparr>events := events w @ attempts_trace ?url ?ro (backoffMs (retryConfig (client w))) 0 0\<rparr>)"
    by (rule makeRequest_loop_run[OF _ _ _ fin]) (simp_all add: assms(2))
  then show ?thesis
    by (simp add: makeRequest_def attempts_trace_last)
qed

lemma default_retryCondition_simps:
  "default_retryCondition (APIError st text) = (st \<ge> 500 \<or> st = 429)"
  "default_retryCondition (FetchError text) = False"
  "default_retryCondition (TypeError text) = False"
  by (simp_all add: default_retryCondition_def APIError_def FetchError_def TypeError_def)

text \<open>Every request of the loop is the same request, and a loop that is entered makes one.\<close>

lemma makeRequest_loop_events:
  "\<exists>evs. events (snd (makeRequest_loop url ro a w)) = events w @ evs \<and>
         (\<forall>url' ro'. Fetch url' ro' \<in> set evs \<longrightarrow> url' = url \<and> ro' = ro) \<and>
         (a \<le> maxRetries (retryConfig (client w)) \<longrightarrow> Fetch url ro \<in> set evs)"
proof (induction url ro a w rule: makeRequest_loop.induct)
  case (1 url ro a w)
  let ?w1 = "w\<lparr>events := events w @ [Fetch url ro]\<rparr>"
  let ?w2 = "delay (backoffMs (retryConfig (client w)) * 2 ^ a) ?w1"
  let ?out = "try_block (server w (fetch_count (events w)) url ro)"
  show ?case
  proof (cases "a \<le> maxRetries (retryConfig (client w))")
    case False
    then show ?thesis
      by (subst makeRequest_loop.simps) simp
  next
    case enter: True
    show ?thesis
    proof (cases ?out)
      case (Inr d)
      with enter have "makeRequest_loop url ro a w = (Inr (Some d), ?w1)"
        by (subst makeRequest_loop.simps) (simp add: fetch_def)
      then show ?thesis by simp
    next
      case (Inl e)
      show ?thesis
      proof (cases "a = maxRetries (retryConfig (client w)) \<or> \<not> retryCondition (retryConfig (client w)) e")
        case True
        with enter Inl have "makeRequest_loop url ro a w = (Inl e, ?w1)"
          by (subst makeRequest_loop.simps) (auto simp: fetch_def)
        then show ?thesis by simp
      next
        case False
        with enter Inl have rec: "makeRequest_loop url ro a w = makeRequest_loop url ro (a + 1) ?w2"
          by (subst makeRequest_loop.simps) (simp add: fetch_def Let_def)
        have f: "(server w (fetch_count (events w)) url ro, ?w1) = fetch url ro w"
          by (simp add: fetch_def)
        have nf: "\<not> (a = maxRetries (retryConfig (client ?w1)) \<or>
                    \<not> retryCondition (retryConfig (client ?w1)) e)"
          using False by simp
        have w2: "delay (backoffMs (retryConfig (client ?w1)) * 2 ^ a) ?w1 = ?w2"
          by simp
        note "1.IH"[OF enter f Inl nf refl, unfolded w2]
        then obtain evs where evs:
          "events (snd (makeRequest_loop url ro (a + 1) ?w2)) = events ?w2 @ evs"
          "\<forall>url' ro'. Fetch url' ro' \<in> set evs \<longrightarrow> url' = url \<and> ro' = ro"
          by blast
        have "events (snd (makeRequest_loop url ro a w)) =
                events w @ (Fetch url ro # Delay (backoffMs (retryConfig (client w)) * 2 ^ a) # evs)"
          unfolding rec evs(1) by (simp add: delay_def)
        with evs(2) show ?thesis
          by (intro exI[of _ "Fetch url ro # Delay (backoffMs (retryConfig (client w)) * 2 ^ a) # evs"])
             auto
      qed
    qed
  qed
qed

text \<open>
  While the attempts fail with errors that the retry condition accepts, the loop moves on:
  each such attempt is one request and its wait.
\<close>

lemma makeRequest_loop_advance:
  assumes "a \<le> n" and "n \<le> maxRetries (retryConfig (client w))"
    and "\<And>k. a \<le> k \<Longrightarrow> k < n \<Longrightarrow>
           \<exists>e. try_block (server w (fetch_count (events w) + (k - a)) url ro) = Inl e \<and>
               retryCondition (retryConfig (client w)) e"
  shows "makeRequest_loop url ro a w =
           makeRequest_loop url ro n
             (w\<lparr>events := events w @
                concat (map (\<lambda>k. [Fetch url ro, Delay (backoffMs (retryConfig (client w)) * 2 ^ k)])
                          [a..<n])\<rparr>)"
  using assms
proof (induction "n - a" arbitrary: a w)
  case 0
  then show ?case by simp
next
  case (Suc d)
  then have lt: "a < n" by simp
  let ?b = "backoffMs (retryConfig (client w))"
  let ?w2 = "w\<lparr>events := events w @ [Fetch url ro, Delay (?b * 2 ^ a)]\<rparr>"
  from Suc.prems(3)[of a] lt obtain e where
    e: "try_block (server w (fetch_count (events w)) url ro) = Inl e"
       "retryCondition (retryConfig (client w)) e" by auto
  have step: "makeRequest_loop url ro a w = makeRequest_loop url ro (Suc a) ?w2"
    using e lt Suc.prems(2)
    by (subst makeRequest_loop.simps) (simp add: fetch_def delay_def Let_def)
  have cnt: "fetch_count (events ?w2) = Suc (fetch_count (events w))"
    by (simp add: fetch_count_def)
  have "makeRequest_loop url ro (Suc a) ?w2 =
          makeRequest_loop url ro n
            (?w2\<lparr>events := events ?w2 @
               concat (map (\<lambda>k. [Fetch url ro, Delay (backoffMs (retryConfig (client ?w2)) * 2 ^ k)])
                         [Suc a..<n])\<rparr>)"
  proof (rule Suc.hyps(1))
    show "d = n - Suc a" using Suc.hyps(2) by simp
    show "Suc a \<le> n" using lt by simp
    show "n \<le> maxRetries (retryConfig (client ?w2))" using Suc.prems(2) by simp
    fix k assume k: "Suc a \<le> k" "k < n"
    have "fetch_count (events w) + (k - a) = fetch_count (events ?w2) + (k - Suc a)"
      using k unfolding cnt by simp
    with Suc.prems(3)[of k] k
    show "\<exists>e. try_block (server ?w2 (fetch_count (events ?w2) + (k - Suc a)) url ro) = Inl e \<and>
               retryCondition (retryConfig (client ?w2)) e"
      by simp
  qed
  then show ?case
    unfolding step by (simp add: upt_conv_Cons[OF lt])
qed

text \<open>A loop that is entered starts with a request.\<close>

lemma makeRequest_loop_first_fetch:
  assumes enter: "a \<le> maxRetries (retryConfig (client w))"
  shows "\<exists>rest. events (snd (makeRequest_loop url ro a w)) = events w @ Fetch url ro # rest"
proof -
  let ?w1 = "w\<lparr>events := events w @ [Fetch url ro]\<rparr>"
  let ?w2 = "delay (backoffMs (retryConfig (client w)) * 2 ^ a) ?w1"
  show ?thesis
  proof (cases "try_block (server w (fetch_count (events w)) url ro)")
    case (Inr d)
    with enter have "makeRequest_loop url ro a w = (Inr (Some d), ?w1)"
      by (subst makeRequest_loop.simps) (simp add: fetch_def)
    then show ?thesis by simp
  next
    case (Inl e)
    show ?thesis
    proof (cases "a = maxRetries (retryConfig (client w)) \<or> \<not> retryCondition (retryConfig (client w)) e")
      case True
      with enter Inl have "makeRequest_loop url ro a w = (Inl e, ?w1)"
        by (subst makeRequest_loop.simps) (auto simp: fetch_def)
      then show ?thesis by simp
    next
      case False
      with enter Inl have rec: "makeRequest_loop url ro a w = makeRequest_loop url ro (a + 1) ?w2"
        by (subst makeRequest_loop.simps) (simp add: fetch_def Let_def)
      from makeRequest_loop_events[of url ro "a + 1" ?w2] obtain evs where
        "events (snd (makeRequest_loop url ro (a + 1) ?w2)) = events ?w2 @ evs"
        by blast
      then have "events (snd (makeRequest_loop url ro a w)) =
                   events w @ Fetch url ro # (Delay (backoffMs (retryConfig (client w)) * 2 ^ a) # evs)"
        unfolding rec by (simp add: delay_def)
      then show ?thesis by blast
    qed
  qed
qed

lemma default_retryCondition_iff:
  "default_retryCondition e \<longleftrightarrow> (\<exists>st. js_error.status e = Some st \<and> (500 \<le> st \<or> st = 429))"
  by (auto simp: default_retryCondition_def split: option.splits)

section \<open>Claims about failed attempts\<close>

text \<open>
  Where the loop does follow its policy: when every attempt receives a 500 response whose
  body decodes to JSON other than \<^verbatim>\<open>null\<close>, with a string for its message (or for its
  status text, when it has no message),
  \<^verbatim>\<open>makeRequest\<close> makes exactly \<open>maxRetries + 1\<close> requests, waits \<open>backoffMs * 2 ^ k\<close>
  milliseconds between attempt \<open>k\<close> and attempt \<open>k + 1\<close>, and then fails with an
  \<^verbatim>\<open>APIError\<close> of status 500 built from the last response.
\<close>

lemma makeRequest_500_exhausts_retries:
  assumes rc: "retryCondition (retryConfig (client w)) = default_retryCondition"
    and resp: "\<And>k. k \<le> maxRetries (retryConfig (client w)) \<Longrightarrow>
        server w (fetch_count (events w) + k) (baseUrl (client w) @ endpoint)
          (merge_options (defaultOptions (client w)) options) = Response (response k) \<and>
        http_response.status (response k) = 500 \<and>
        json_body (response k) = Some (decoded k) \<and> decoded k \<noteq> JNull \<and>
        message_or (decoded k) (statusText (response k)) = JStr (text k)"
  shows "makeRequest endpoint options w =
           (Inl (APIError 500 (text (maxRetries (retryConfig (client w))))),
            w\<lparr>events := events w @
               concat (map (\<lambda>k. [Fetch (baseUrl (client w) @ endpoint)
                                    (merge_options (defaultOptions (client w)) options),
                                  Delay (backoffMs (retryConfig (client w)) * 2 ^ k)])
                         [0..<maxRetries (retryConfig (client w))]) @
               [Fetch (baseUrl (client w) @ endpoint)
                  (merge_options (defaultOptions (client w)) options)]\<rparr>) \<and>
         fetch_count (events (snd (makeRequest endpoint options w))) =
           fetch_count (events w) + (maxRetries (retryConfig (client w)) + 1)"
proof -
  let ?url = "baseUrl (client w) @ endpoint"
  let ?ro = "merge_options (defaultOptions (client w)) options"
  let ?m = "maxRetries (retryConfig (client w))"
  have tb: "try_block (server w (fetch_count (events w) + k) ?url ?ro) = Inl (APIError 500 (text k))"
    if "k \<le> ?m" for k
    using resp[OF that] by (simp add: try_block_def ok_def throw_new_APIError_def)
  have fin: "try_block (server w (fetch_count (events w) + (?m - 0)) ?url ?ro) =
               Inl (APIError 500 (text ?m))"
    using tb[of ?m] by simp
  have run: "makeRequest_loop ?url ?ro 0 w =
          (map_sum id Some (Inl (APIError 500 (text ?m))),
           w\<lparr>events := events w @ attempts_trace ?url ?ro (backoffMs (retryConfig (client w))) 0 ?m\<rparr>)"
  proof (rule makeRequest_loop_run[OF _ _ _ fin])
    fix k assume "0 \<le> k" "k < ?m"
    then show "\<exists>e. try_block (server w (fetch_count (events w) + (k - 0)) ?url ?ro) = Inl e \<and>
                 retryCondition (retryConfig (client w)) e"
      using tb[of k] by (simp add: rc default_retryCondition_simps)
  qed simp_all
  then have eq: "makeRequest endpoint options w =
      (Inl (APIError 500 (text ?m)),
       w\<lparr>events := events w @ attempts_trace ?url ?ro (backoffMs (retryConfig (client w))) 0 ?m\<rparr>)"
    by (simp add: makeRequest_def)
  have "fetch_count (events (snd (makeRequest endpoint options w))) = fetch_count (events w) + (?m + 1)"
    unfolding eq by (simp add: fetch_count_append fetch_count_attempts_trace)
  with eq show ?thesis
    by (simp add: attempts_trace_def)
qed

text \<open>
  The constructor's policy against a server that always answers 500 with a JSON body:
  four requests, with waits of 1000, 2000 and 4000 milliseconds between them.
\<close>

lemma makeRequest_500_exhausts_retries_example:
  "makeRequest ''/spaces'' no_options
       (start (always (reply 500 ''Internal Server Error'' (Some (JObj [(''message'', JStr ''boom'')]))))) =
     (Inl (APIError 500 ''boom''),
      (start (always (reply 500 ''Internal Server Error'' (Some (JObj [(''message'', JStr ''boom'')])))))
        \<lparr>events :=
           [Fetch ''https://gather.town/api/v2/spaces'' (merge_options (defaultOptions demo_client) no_options),
            Delay 1000,
            Fetch ''https://gather.town/api/v2/spaces'' (merge_options (defaultOptions demo_client) no_options),
            Delay 2000,
            Fetch ''https://gather.town/api/v2/spaces'' (merge_options (defaultOptions demo_client) no_options),
            Delay 4000,
            Fetch ''https://gather.town/api/v2/spaces'' (merge_options (defaultOptions demo_client) no_options)]\<rparr>)"
proof -
  have three: "[0..<3] = [0, 1, 2]"
    by (simp add: upt_rec)
  show ?thesis
    using makeRequest_500_exhausts_retries
      [of "start (always (reply 500 ''Internal Server Error'' (Some (JObj [(''message'', JStr ''boom'')]))))"
          "''/spaces''" no_options
          "\<lambda>k. \<lparr>status = 500, statusText = ''Internal Server Error'',
                 json_body = Some (JObj [(''message'', JStr ''boom'')])\<rparr>"
          "\<lambda>k. JObj [(''message'', JStr ''boom'')]" "\<lambda>k. ''boom''"]
    by (simp add: start_def always_def reply_def demo_client_def message_or_def three)
qed

text \<open>
  C1. The claim is what the retry condition of the code asks for (\<^verbatim>\<open>error.status >= 500\<close>),
  and the code misses it: the body is decoded before the status is read, so a 500 response
  whose body is not JSON is caught as an error without a status and is not retried. Here
  every attempt would receive such a 500 response and three retries are allowed, yet the
  call ends after one request, and the error carries no status.
\<close>

theorem makeRequest_500_undecodable_not_retried:
  "maxRetries (retryConfig (client (start (always (reply 500 ''Internal Server Error'' None))))) = 3 \<and>
   makeRequest ''/spaces'' no_options (start (always (reply 500 ''Internal Server Error'' None))) =
     (Inl (FetchError ''invalid json response body''),
      (start (always (reply 500 ''Internal Server Error'' None)))
        \<lparr>events := [Fetch ''https://gather.town/api/v2/spaces''
                      (merge_options (defaultOptions demo_client) no_options)]\<rparr>) \<and>
   js_error.status (FetchError ''invalid json response body'') = None"
  using makeRequest_fails_at_once
    [of "start (always (reply 500 ''Internal Server Error'' None))" "''/spaces''" no_options
        "FetchError ''invalid json response body''"]
  by (simp add: start_def always_def reply_def demo_client_def try_block_def
        default_retryCondition_def FetchError_def fetch_count_def)

text \<open>
  The same loss of the status on two more 500 responses: a body that is \<^verbatim>\<open>null\<close>, and a
  body whose message cannot be converted to a string.
\<close>

lemma makeRequest_500_null_not_retried:
  "makeRequest ''/spaces'' no_options (start (always (reply 500 ''Internal Server Error'' (Some JNull)))) =
     (Inl (TypeError ''Cannot read properties of null''),
      (start (always (reply 500 ''Internal Server Error'' (Some JNull))))
        \<lparr>events := [Fetch ''https://gather.town/api/v2/spaces''
                      (merge_options (defaultOptions demo_client) no_options)]\<rparr>)"
  using makeRequest_fails_at_once
    [of "start (always (reply 500 ''Internal Server Error'' (Some JNull)))" "''/spaces''" no_options
        "TypeError ''Cannot read properties of null''"]
  by (simp add: start_def always_def reply_def demo_client_def try_block_def ok_def
        default_retryCondition_def TypeError_def fetch_count_def)

lemma makeRequest_500_unprintable_message_not_retried:
  "makeRequest ''/spaces'' no_options
       (start (always (reply 500 ''Internal Server Error''
                         (Some (JObj [(''message'', JObj [(''toString'', JNum 1)])]))))) =
     (Inl (TypeError ''Cannot convert object to primitive value''),
      (start (always (reply 500 ''Internal Server Error''
                        (Some (JObj [(''message'', JObj [(''toString'', JNum 1)])])))))
        \<lparr>events := [Fetch ''https://gather.town/api/v2/spaces''
                      (merge_options (defaultOptions demo_client) no_options)]\<rparr>)"
  using makeRequest_fails_at_once
    [of "start (always (reply 500 ''Internal Server Error''
                          (Some (JObj [(''message'', JObj [(''toString'', JNum 1)])]))))"
        "''/spaces''" no_options "TypeError ''Cannot convert object to primitive value''"]
  by (simp add: start_def always_def reply_def demo_client_def try_block_def ok_def message_or_def
        throw_new_APIError_def default_retryCondition_def TypeError_def fetch_count_def)

text \<open>
  Where the loop does follow its policy on a 429: when at least one retry is allowed, the
  first response is a 429 whose body decodes to JSON other than \<^verbatim>\<open>null\<close> with a string
  for its message (or status text), and the second response is a 200 with a decodable body,
  \<^verbatim>\<open>makeRequest\<close> waits \<open>backoffMs\<close> milliseconds once and returns the decoded body of the
  200 response from the second attempt.
\<close>

lemma makeRequest_429_then_200:
  assumes rc: "retryCondition (retryConfig (client w)) = default_retryCondition"
    and retries: "0 < maxRetries (retryConfig (client w))"
    and first: "server w (fetch_count (events w)) (baseUrl (client w) @ endpoint)
                  (merge_options (defaultOptions (client w)) options) = Response limited"
    and limited: "http_response.status limited = 429" "json_body limited = Some refusal"
                 "refusal \<noteq> JNull" "message_or refusal (statusText limited) = JStr text"
    and second: "server w (fetch_count (events w) + 1) (baseUrl (client w) @ endpoint)
                  (merge_options (defaultOptions (client w)) options) = Response response"
    and response: "http_response.status response = 200" "json_body response = Some decoded"
  shows "makeRequest endpoint options w =
           (Inr (Some decoded),
            w\<lparr>events := events w @
               [Fetch (baseUrl (client w) @ endpoint) (merge_options (defaultOptions (client w)) options),
                Delay (backoffMs (retryConfig (client w))),
                Fetch (baseUrl (client w) @ endpoint) (merge_options (defaultOptions (client w)) options)]\<rparr>)"
proof -
  let ?url = "baseUrl (client w) @ endpoint"
  let ?ro = "merge_options (defaultOptions (client w)) options"
  have fin: "try_block (server w (fetch_count (events w) + (1 - 0)) ?url ?ro) = Inr decoded"
    using second response by (simp add: try_block_def ok_def)
  have "makeRequest_loop ?url ?ro 0 w =
          (map_sum id Some (Inr decoded),
           w\<lparr>events := events w @ attempts_trace ?url ?ro (backoffMs (retryConfig (client w))) 0 1\<rparr>)"
  proof (rule makeRequest_loop_run[OF _ _ _ fin])
    show "1 \<le> maxRetries (retryConfig (client w))" using retries by simp
    fix k :: nat assume "0 \<le> k" "k < 1"
    then have "k = 0" by simp
    then show "\<exists>e. try_block (server w (fetch_count (events w) + (k - 0)) ?url ?ro) = Inl e \<and>
                 retryCondition (retryConfig (client w)) e"
      using first limited
      by (simp add: try_block_def ok_def throw_new_APIError_def rc default_retryCondition_simps)
  qed simp_all
  then show ?thesis
    by (simp add: makeRequest_def attempts_trace_def)
qed

text \<open>A 429 with an empty JSON object, then a 200 with a guest list.\<close>

lemma makeRequest_429_then_200_example:
  "makeRequest ''/spaces/s1/guests'' no_options
       (start (first_then (reply 429 ''Too Many Requests'' (Some (JObj [])))
                          (reply 200 ''OK'' (Some (JArr [JStr ''guest'']))))) =
     (Inr (Some (JArr [JStr ''guest''])),
      (start (first_then (reply 429 ''Too Many Requests'' (Some (JObj [])))
                         (reply 200 ''OK'' (Some (JArr [JStr ''guest''])))))
        \<lparr>events :=
           [Fetch ''https://gather.town/api/v2/spaces/s1/guests''
              (merge_options (defaultOptions demo_client) no_options),
            Delay 1000,
            Fetch ''https://gather.town/api/v2/spaces/s1/guests''
              (merge_options (defaultOptions demo_client) no_options)]\<rparr>)"
  using makeRequest_429_then_200
    [of "start (first_then (reply 429 ''Too Many Requests'' (Some (JObj [])))
                           (reply 200 ''OK'' (Some (JArr [JStr ''guest'']))))"
        "''/spaces/s1/guests''" no_options
        "\<lparr>status = 429, statusText = ''Too Many Requests'', json_body = Some (JObj [])\<rparr>"
        "JObj []" "''Too Many Requests''"
        "\<lparr>status = 200, statusText = ''OK'', json_body = Some (JArr [JStr ''guest''])\<rparr>"
        "JArr [JStr ''guest'']"]
  by (simp add: start_def first_then_def reply_def demo_client_def fetch_count_def message_or_def)

text \<open>
  C7. The claim is what the retry condition of the code asks for
  (\<^verbatim>\<open>error.status === 429\<close>), and the code misses it for the same reason as in C1: a 429
  response with a plain-text body is caught as an error without a status. Here the first
  response is such a 429 and the second would be a 200; the call fails on the first
  attempt, with no wait, and the 200 response is never asked for.
\<close>

theorem makeRequest_429_plain_text_not_retried:
  "makeRequest ''/spaces/s1/guests'' no_options
       (start (first_then (reply 429 ''Too Many Requests'' None)
                          (reply 200 ''OK'' (Some (JArr [JStr ''guest'']))))) =
     (Inl (FetchError ''invalid json response body''),
      (start (first_then (reply 429 ''Too Many Requests'' None)
                         (reply 200 ''OK'' (Some (JArr [JStr ''guest''])))))
        \<lparr>events := [Fetch ''https://gather.town/api/v2/spaces/s1/guests''
                      (merge_options (defaultOptions demo_client) no_options)]\<rparr>)"
  using makeRequest_fails_at_once
    [of "start (first_then (reply 429 ''Too Many Requests'' None)
                           (reply 200 ''OK'' (Some (JArr [JStr ''guest'']))))"
        "''/spaces/s1/guests''" no_options "FetchError ''invalid json response body''"]
  by (simp add: start_def first_then_def reply_def demo_client_def try_block_def
        default_retryCondition_def FetchError_def fetch_count_def)

text \<open>
  C3. The claim fails on the code: an error raised by \<^verbatim>\<open>fetch\<close> itself has no
  \<^verbatim>\<open>status\<close>, and the retry condition \<^verbatim>\<open>error.status >= 500 || error.status === 429\<close>
  is false for it. What holds, at whatever attempt \<open>n\<close> of a call the failure comes (the
  attempts before it having been retried): on a network-level failure \<^verbatim>\<open>makeRequest\<close>
  rethrows the error of that attempt, with no wait after it and no further request,
  however many attempts remain. The same holds of every error whose status is neither
  500 or more nor 429, or that has no status; and an error with such a status, caught
  while attempts remain, is followed by a wait of \<open>backoffMs * 2 ^ n\<close> and another request.
\<close>

theorem makeRequest_network_failure_not_retried:
  assumes rc: "retryCondition (retryConfig (client w)) = default_retryCondition"
    and n: "n \<le> maxRetries (retryConfig (client w))"
    and earlier: "\<And>k. k < n \<Longrightarrow>
        \<exists>e. try_block (server w (fetch_count (events w) + k) (baseUrl (client w) @ endpoint)
                 (merge_options (defaultOptions (client w)) options)) = Inl e \<and>
            default_retryCondition e"
  shows "(\<forall>reason.
            server w (fetch_count (events w) + n) (baseUrl (client w) @ endpoint)
              (merge_options (defaultOptions (client w)) options) = NetworkFailure reason \<longrightarrow>
            makeRequest endpoint options w =
              (Inl (FetchError reason),
               w\<lparr>events := events w @
                  concat (map (\<lambda>k. [Fetch (baseUrl (client w) @ endpoint)
                                       (merge_options (defaultOptions (client w)) options),
                                     Delay (backoffMs (retryConfig (client w)) * 2 ^ k)])
                            [0..<n]) @
                  [Fetch (baseUrl (client w) @ endpoint)
                     (merge_options (defaultOptions (client w)) options)]\<rparr>)) \<and>
         (\<forall>error.
            try_block (server w (fetch_count (events w) + n) (baseUrl (client w) @ endpoint)
              (merge_options (defaultOptions (client w)) options)) = Inl error \<longrightarrow>
            \<not> (\<exists>st. js_error.status error = Some st \<and> (500 \<le> st \<or> st = 429)) \<longrightarrow>
            makeRequest endpoint options w =
              (Inl error,
               w\<lparr>events := events w @
                  concat (map (\<lambda>k. [Fetch (baseUrl (client w) @ endpoint)
                                       (merge_options (defaultOptions (client w)) options),
                                     Delay (backoffMs (retryConfig (client w)) * 2 ^ k)])
                            [0..<n]) @
                  [Fetch (baseUrl (client w) @ endpoint)
                     (merge_options (defaultOptions (client w)) options)]\<rparr>)) \<and>
         (\<forall>error st.
            try_block (server w (fetch_count (events w) + n) (baseUrl (client w) @ endpoint)
              (merge_options (defaultOptions (client w)) options)) = Inl error \<longrightarrow>
            js_error.status error = Some st \<longrightarrow> 500 \<le> st \<or> st = 429 \<longrightarrow>
            n < maxRetries (retryConfig (client w)) \<longrightarrow>
            (\<exists>rest. events (snd (makeRequest endpoint options w)) =
               events w @
               concat (map (\<lambda>k. [Fetch (baseUrl (client w) @ endpoint)
                                    (merge_options (defaultOptions (client w)) options),
                                  Delay (backoffMs (retryConfig (client w)) * 2 ^ k)])
                         [0..<n]) @
               [Fetch (baseUrl (client w) @ endpoint)
                  (merge_options (defaultOptions (client w)) options),
                Delay (backoffMs (retryConfig (client w)) * 2 ^ n),
                Fetch (baseUrl (client w) @ endpoint)
                  (merge_options (defaultOptions (client w)) options)] @ rest))"
proof -
  let ?url = "baseUrl (client w) @ endpoint"
  let ?ro = "merge_options (defaultOptions (client w)) options"
  let ?b = "backoffMs (retryConfig (client w))"
  let ?pairs = "\<lambda>m. concat (map (\<lambda>k. [Fetch ?url ?ro, Delay (?b * 2 ^ k)]) [0..<m])"
  have before: "\<exists>e. try_block (server w (fetch_count (events w) + (k - 0)) ?url ?ro) = Inl e \<and>
                   retryCondition (retryConfig (client w)) e"
    if "k < n" for k
    using earlier[OF that] by (simp add: rc)
  have stop: "makeRequest endpoint options w = (Inl error, w\<lparr>events := events w @ ?pairs n @ [Fetch ?url ?ro]\<rparr>)"
    if tb: "try_block (server w (fetch_count (events w) + n) ?url ?ro) = Inl error"
      and no: "\<not> default_retryCondition error"
    for error
  proof -
    have fin: "try_block (server w (fetch_count (events w) + (n - 0)) ?url ?ro) = Inl error"
      using tb by simp
    have "makeRequest_loop ?url ?ro 0 w =
            (map_sum id Some (Inl error),
             w\<lparr>events := events w @ attempts_trace ?url ?ro ?b 0 n\<rparr>)"
    proof (rule makeRequest_loop_run[OF _ n _ fin])
      fix k assume "0 \<le> k" "k < n"
      then show "\<exists>e. try_block (server w (fetch_count (events w) + (k - 0)) ?url ?ro) = Inl e \<and>
                   retryCondition (retryConfig (client w)) e"
        using before by simp
    qed (simp_all add: rc no)
    then show ?thesis
      by (simp add: makeRequest_def attempts_trace_def)
  qed
  have network: "makeRequest endpoint options w =
                   (Inl (FetchError reason), w\<lparr>events := events w @ ?pairs n @ [Fetch ?url ?ro]\<rparr>)"
    if "server w (fetch_count (events w) + n) ?url ?ro = NetworkFailure reason" for reason
    by (rule stop) (simp_all add: that try_block_def default_retryCondition_simps)
  have other: "makeRequest endpoint options w =
                 (Inl error, w\<lparr>events := events w @ ?pairs n @ [Fetch ?url ?ro]\<rparr>)"
    if "try_block (server w (fetch_count (events w) + n) ?url ?ro) = Inl error"
      and "\<not> (\<exists>st. js_error.status error = Some st \<and> (500 \<le> st \<or> st = 429))"
    for error
    using that by (intro stop) (simp_all add: default_retryCondition_iff)
  have goes_on: "\<exists>rest. events (snd (makeRequest endpoint options w)) =
                   events w @ ?pairs n @ [Fetch ?url ?ro, Delay (?b * 2 ^ n), Fetch ?url ?ro] @ rest"
    if tb: "try_block (server w (fetch_count (events w) + n) ?url ?ro) = Inl error"
      and st: "js_error.status error = Some st" "500 \<le> st \<or> st = 429"
      and more: "n < maxRetries (retryConfig (client w))"
    for error st
  proof -
    let ?w' = "w\<lparr>events := events w @ ?pairs (Suc n)\<rparr>"
    have retry: "default_retryCondition error"
      using st by (auto simp: default_retryCondition_iff)
    have "makeRequest_loop ?url ?ro 0 w = makeRequest_loop ?url ?ro (Suc n) ?w'"
    proof (rule makeRequest_loop_advance)
      show "Suc n \<le> maxRetries (retryConfig (client w))" using more by simp
      fix k assume "0 \<le> k" "k < Suc n"
      then consider "k < n" | "k = n" by linarith
      then show "\<exists>e. try_block (server w (fetch_count (events w) + (k - 0)) ?url ?ro) = Inl e \<and>
                   retryCondition (retryConfig (client w)) e"
      proof cases
        case 1
        then show ?thesis using before by simp
      next
        case 2
        then show ?thesis using tb retry by (simp add: rc)
      qed
    qed simp
    moreover have "\<exists>rest. events (snd (makeRequest_loop ?url ?ro (Suc n) ?w')) =
                     events ?w' @ Fetch ?url ?ro # rest"
      by (rule makeRequest_loop_first_fetch) (use more in simp)
    ultimately obtain rest where
      "events (snd (makeRequest_loop ?url ?ro 0 w)) = events ?w' @ Fetch ?url ?ro # rest"
      by auto
    then have "events (snd (makeRequest endpoint options w)) =
                 events w @ ?pairs n @ [Fetch ?url ?ro, Delay (?b * 2 ^ n), Fetch ?url ?ro] @ rest"
      by (simp add: makeRequest_def)
    then show ?thesis by blast
  qed
  show ?thesis
  proof (intro conjI allI impI)
    fix reason
    assume "server w (fetch_count (events w) + n) ?url ?ro = NetworkFailure reason"
    then show "makeRequest endpoint options w =
                 (Inl (FetchError reason), w\<lparr>events := events w @ ?pairs n @ [Fetch ?url ?ro]\<rparr>)"
      by (rule network)
  next
    fix error
    assume "try_block (server w (fetch_count (events w) + n) ?url ?ro) = Inl error"
      and "\<not> (\<exists>st. js_error.status error = Some st \<and> (500 \<le> st \<or> st = 429))"
    then show "makeRequest endpoint options w =
                 (Inl error, w\<lparr>events := events w @ ?pairs n @ [Fetch ?url ?ro]\<rparr>)"
      by (rule other)
  next
    fix error st
    assume "try_block (server w (fetch_count (events w) + n) ?url ?ro) = Inl error"
      and "js_error.status error = Some st" and "500 \<le> st \<or> st = 429"
      and "n < maxRetries (retryConfig (client w))"
    then show "\<exists>rest. events (snd (makeRequest endpoint options w)) =
                 events w @ ?pairs n @ [Fetch ?url ?ro, Delay (?b * 2 ^ n), Fetch ?url ?ro] @ rest"
      by (rule goes_on)
  qed
qed

text \<open>
  A 503 that is retried, then a reset connection on the second attempt, with two more
  attempts allowed: the call ends there, with no wait after the failed request.
\<close>

theorem makeRequest_network_failure_not_retried_witness:
  "makeRequest ''/spaces'' no_options
       (start (first_then (reply 503 ''Service Unavailable'' (Some (JObj [])))
                          (NetworkFailure ''ECONNRESET''))) =
     (Inl (FetchError ''ECONNRESET''),
      (start (first_then (reply 503 ''Service Unavailable'' (Some (JObj [])))
                         (NetworkFailure ''ECONNRESET'')))
        \<lparr>events :=
           [Fetch ''https://gather.town/api/v2/spaces'' (merge_options (defaultOptions demo_client) no_options),
            Delay 1000,
            Fetch ''https://gather.town/api/v2/spaces'' (merge_options (defaultOptions demo_client) no_options)]\<rparr>)"
proof -
  let ?w = "start (first_then (reply 503 ''Service Unavailable'' (Some (JObj [])))
                              (NetworkFailure ''ECONNRESET''))"
  have rc: "retryCondition (retryConfig (client ?w)) = default_retryCondition"
    by (simp add: start_def demo_client_def)
  have n: "1 \<le> maxRetries (retryConfig (client ?w))"
    by (simp add: start_def demo_client_def)
  have earlier: "\<exists>e. try_block (server ?w (fetch_count (events ?w) + k) (baseUrl (client ?w) @ ''/spaces'')
                        (merge_options (defaultOptions (client ?w)) no_options)) = Inl e \<and>
                    default_retryCondition e"
    if "k < 1" for k
    using that
    by (simp add: start_def first_then_def reply_def fetch_count_def try_block_def ok_def
          message_or_def throw_new_APIError_def default_retryCondition_simps)
  have one: "[0..<1] = [0]"
    by (simp add: upt_rec)
  from makeRequest_network_failure_not_retried[OF rc n earlier]
  show ?thesis
    by (simp add: start_def first_then_def demo_client_def fetch_count_def one)
qed

text \<open>
  C3, counterexample: a DNS failure on the first attempt, with three retries allowed.
  The only effect is the one request; the call fails with the error of the transport.
\<close>

theorem makeRequest_network_failure_counterexample:
  "maxRetries (retryConfig (client (start (always (NetworkFailure ''ENOTFOUND''))))) = 3 \<and>
   events (snd (makeRequest ''/spaces'' no_options (start (always (NetworkFailure ''ENOTFOUND''))))) =
     [Fetch ''https://gather.town/api/v2/spaces'' (merge_options (defaultOptions demo_client) no_options)] \<and>
   fst (makeRequest ''/spaces'' no_options (start (always (NetworkFailure ''ENOTFOUND'')))) =
     Inl (FetchError ''ENOTFOUND'')"
  using makeRequest_fails_at_once
    [of "start (always (NetworkFailure ''ENOTFOUND''))" "''/spaces''" no_options "FetchError ''ENOTFOUND''"]
  by (simp add: start_def always_def demo_client_def try_block_def
        default_retryCondition_def FetchError_def)

text \<open>
  C2. The claim fails on the code: \<^verbatim>\<open>makeRequest\<close> itself never raises a
  \<^verbatim>\<open>ValidationError\<close>; on a 400 response it throws the generic \<^verbatim>\<open>APIError\<close>, which carries
  no payload. What holds: on a 400 response \<^verbatim>\<open>makeRequest\<close> fails on the first attempt, after
  one request and with no retry; when the body decodes to JSON other than \<^verbatim>\<open>null\<close> and its
  message converts to a string, the error is \<^verbatim>\<open>APIError\<close> with status 400 (its message is
  the message of the body, when that is a string);
  and \<^verbatim>\<open>addGuest\<close>, for its own request, turns that error into a \<^verbatim>\<open>ValidationError\<close> whose
  \<open>data\<close> is the \<open>guestConfig\<close> argument it was called with.
\<close>

theorem bad_request_fails_at_once:
  assumes rc: "retryCondition (retryConfig (client w)) = default_retryCondition"
    and resp: "server w (fetch_count (events w)) (baseUrl (client w) @ endpoint)
             (merge_options (defaultOptions (client w)) options) = Response response"
    and st: "http_response.status response = 400"
  shows "(\<exists>error. makeRequest endpoint options w =
            (Inl error,
             w\<lparr>events := events w @
                [Fetch (baseUrl (client w) @ endpoint)
                   (merge_options (defaultOptions (client w)) options)]\<rparr>)) \<and>
         (\<forall>responseData.
            json_body response = Some responseData \<longrightarrow> responseData \<noteq> JNull \<longrightarrow>
            ToString (message_or responseData (statusText response)) \<noteq> None \<longrightarrow>
            (\<exists>msg. makeRequest endpoint options w =
               (Inl (APIError 400 msg),
                w\<lparr>events := events w @
                   [Fetch (baseUrl (client w) @ endpoint)
                      (merge_options (defaultOptions (client w)) options)]\<rparr>) \<and>
               (\<forall>s. message_or responseData (statusText response) = JStr s \<longrightarrow> msg = s)) \<and>
            (\<forall>spaceId guestConfig.
               endpoint = ''/spaces/'' @ spaceId @ ''/guests'' \<longrightarrow>
               options = \<lparr>http_method = Some ''POST'',
                          body = Some (JSON_stringify (addGuest_payload guestConfig)),
                          headers = None\<rparr> \<longrightarrow>
               addGuest spaceId guestConfig w =
                 (Inl (ValidationError ''Invalid guest configuration'' guestConfig),
                  w\<lparr>events := events w @
                     [Fetch (baseUrl (client w) @ endpoint)
                        (merge_options (defaultOptions (client w)) options)]\<rparr>)))"
proof -
  let ?url = "baseUrl (client w) @ endpoint"
  let ?ro = "merge_options (defaultOptions (client w)) options"
  let ?w1 = "w\<lparr>events := events w @ [Fetch ?url ?ro]\<rparr>"
  have "\<exists>e. try_block (Response response) = Inl e \<and> \<not> default_retryCondition e"
  proof (cases "json_body response")
    case None
    then show ?thesis
      by (simp add: try_block_def default_retryCondition_simps)
  next
    case (Some d)
    show ?thesis
    proof (cases "d = JNull")
      case True
      with Some st show ?thesis
        by (simp add: try_block_def ok_def default_retryCondition_simps)
    next
      case False
      with Some st show ?thesis
        by (cases "ToString (message_or d (statusText response))")
           (simp_all add: try_block_def ok_def throw_new_APIError_def default_retryCondition_simps)
    qed
  qed
  then obtain e where e: "try_block (Response response) = Inl e" "\<not> default_retryCondition e"
    by blast
  have once: "makeRequest endpoint options w = (Inl e, ?w1)"
    by (rule makeRequest_fails_at_once) (simp_all add: resp rc e)
  have api: "e = APIError 400 msg"
    if "json_body response = Some d" "d \<noteq> JNull"
       "ToString (message_or d (statusText response)) = Some msg" for d msg
    using e(1) that st by (simp add: try_block_def ok_def throw_new_APIError_def)
  have guest: "addGuest spaceId guestConfig w =
                 (Inl (ValidationError ''Invalid guest configuration'' guestConfig), ?w1)"
    if "json_body response = Some d" "d \<noteq> JNull"
      "ToString (message_or d (statusText response)) = Some msg"
      "endpoint = ''/spaces/'' @ spaceId @ ''/guests''"
      "options = \<lparr>http_method = Some ''POST'',
                  body = Some (JSON_stringify (addGuest_payload guestConfig)), headers = None\<rparr>"
    for d msg spaceId guestConfig
    using once api[OF that(1,2,3)] that(4,5)
    by (simp add: addGuest_def APIError_def)
  show ?thesis
  proof (intro conjI allI impI)
    show "\<exists>error. makeRequest endpoint options w = (Inl error, ?w1)"
      using once by blast
  next
    fix responseData
    assume a: "json_body response = Some responseData" "responseData \<noteq> JNull"
      "ToString (message_or responseData (statusText response)) \<noteq> None"
    then obtain msg where msg: "ToString (message_or responseData (statusText response)) = Some msg"
      by blast
    have "makeRequest endpoint options w = (Inl (APIError 400 msg), ?w1)"
      using once api[OF a(1,2) msg] by simp
    moreover have "msg = s" if "message_or responseData (statusText response) = JStr s" for s
      using msg that by simp
    ultimately show "\<exists>msg. makeRequest endpoint options w = (Inl (APIError 400 msg), ?w1) \<and>
                       (\<forall>s. message_or responseData (statusText response) = JStr s \<longrightarrow> msg = s)"
      by blast
  next
    fix responseData spaceId guestConfig
    assume a: "json_body response = Some responseData" "responseData \<noteq> JNull"
      "ToString (message_or responseData (statusText response)) \<noteq> None"
    then obtain msg where "ToString (message_or responseData (statusText response)) = Some msg"
      by blast
    moreover assume "endpoint = ''/spaces/'' @ spaceId @ ''/guests''"
      "options = \<lparr>http_method = Some ''POST'',
                  body = Some (JSON_stringify (addGuest_payload guestConfig)), headers = None\<rparr>"
    ultimately show "addGuest spaceId guestConfig w =
                 (Inl (ValidationError ''Invalid guest configuration'' guestConfig), ?w1)"
      using a(1,2) by (intro guest)
  qed
qed

text \<open>\<^verbatim>\<open>addGuest\<close> against a server that rejects the guest with a 400.\<close>

theorem bad_request_fails_at_once_witness:
  "addGuest ''s1'' (JObj [(''email'', JStr ''nobody'')])
       (start (always (reply 400 ''Bad Request'' (Some (JObj [(''message'', JStr ''invalid email'')]))))) =
     (Inl (ValidationError ''Invalid guest configuration'' (JObj [(''email'', JStr ''nobody'')])),
      (start (always (reply 400 ''Bad Request'' (Some (JObj [(''message'', JStr ''invalid email'')])))))
        \<lparr>events :=
           [Fetch ''https://gather.town/api/v2/spaces/s1/guests''
              (merge_options (defaultOptions demo_client)
                 \<lparr>http_method = Some ''POST'',
                  body = Some (JSON_stringify (addGuest_payload (JObj [(''email'', JStr ''nobody'')]))),
                  headers = None\<rparr>)]\<rparr>)"
  using bad_request_fails_at_once
    [of "start (always (reply 400 ''Bad Request'' (Some (JObj [(''message'', JStr ''invalid email'')]))))"
        "''/spaces/s1/guests''"
        "\<lparr>http_method = Some ''POST'',
          body = Some (JSON_stringify (addGuest_payload (JObj [(''email'', JStr ''nobody'')]))),
          headers = None\<rparr>"
        "\<lparr>status = 400, statusText = ''Bad Request'',
          json_body = Some (JObj [(''message'', JStr ''invalid email'')])\<rparr>"]
  by (simp add: start_def always_def reply_def demo_client_def message_or_def)

text \<open>
  C2, counterexample: \<^verbatim>\<open>makeRequest\<close> called as \<^verbatim>\<open>createSpace\<close> calls it, answered by a 400.
  The error thrown is named \<^verbatim>\<open>APIError\<close> and has no \<open>data\<close>.
\<close>

theorem makeRequest_400_is_APIError_counterexample:
  "fst (makeRequest ''/spaces''
         \<lparr>http_method = Some ''POST'', body = Some (JSON_stringify (JObj [(''name'', JStr [])])), headers = None\<rparr>
         (start (always (reply 400 ''Bad Request'' (Some (JObj [(''message'', JStr ''name is required'')])))))) =
     Inl (APIError 400 ''name is required'') \<and>
   name (APIError 400 ''name is required'') = ''APIError'' \<and>
   name (APIError 400 ''name is required'') \<noteq> ''ValidationError'' \<and>
   data (APIError 400 ''name is required'') = None"
  using makeRequest_fails_at_once
    [of "start (always (reply 400 ''Bad Request'' (Some (JObj [(''message'', JStr ''name is required'')]))))"
        "''/spaces''"
        "\<lparr>http_method = Some ''POST'', body = Some (JSON_stringify (JObj [(''name'', JStr [])])), headers = None\<rparr>"
        "APIError 400 ''name is required''"]
  by (simp add: start_def always_def reply_def demo_client_def try_block_def ok_def message_or_def
        throw_new_APIError_def default_retryCondition_def APIError_def fetch_count_def)

section \<open>Claims about the client object and the convenience methods\<close>

lemma makeRequest_frame:
  "client (snd (makeRequest endpoint options w)) = client w"
  by (simp add: makeRequest_def makeRequest_loop_frame)

lemma addGuest_snd:
  "snd (addGuest spaceId guestConfig w) =
     snd (makeRequest (''/spaces/'' @ spaceId @ ''/guests'')
            \<lparr>http_method = Some ''POST'', body = Some (JSON_stringify (addGuest_payload guestConfig)),
             headers = None\<rparr> w)"
  by (simp add: addGuest_def split: prod.splits sum.splits)

text \<open>
  C8. Whatever method of the client is called, with whatever arguments, against whatever
  remote side, and however the call ends, the client object afterwards has the same
  \<open>apiKey\<close>, \<open>baseUrl\<close> and \<open>retryConfig\<close> as before.
\<close>

theorem perform_keeps_configuration:
  "apiKey (client (snd (perform operation w))) = apiKey (client w) \<and>
   baseUrl (client (snd (perform operation w))) = baseUrl (client w) \<and>
   retryConfig (client (snd (perform operation w))) = retryConfig (client w)"
proof -
  have "client (snd (perform operation w)) = client w"
  proof (cases operation)
    case (AddGuest spaceId guestConfig)
    then show ?thesis
      by (simp add: addGuest_snd makeRequest_frame)
  next
    case (DelayFor ms)
    then show ?thesis
      by (simp add: delay_def)
  qed (simp_all add: makeRequest_frame createSpace_def getSpace_def updateSpace_def
         getGuestList_def updateGuest_def removeGuest_def sendInvitation_def createWebhook_def)
  then show ?thesis by simp
qed

text \<open>\<^verbatim>\<open>addGuest\<close> against a server that is down: the call fails, the configuration stays.\<close>

theorem perform_keeps_configuration_witness:
  "apiKey (client (snd (perform (AddGuest ''s1'' (JObj [(''email'', JStr ''nobody'')]))
       (start (always (reply 503 ''Service Unavailable'' (Some (JObj [])))))))) = ''secret'' \<and>
   baseUrl (client (snd (perform (AddGuest ''s1'' (JObj [(''email'', JStr ''nobody'')]))
       (start (always (reply 503 ''Service Unavailable'' (Some (JObj [])))))))) = ''https://gather.town/api/v2'' \<and>
   maxRetries (retryConfig (client (snd (perform (AddGuest ''s1'' (JObj [(''email'', JStr ''nobody'')]))
       (start (always (reply 503 ''Service Unavailable'' (Some (JObj []))))))))) = 3 \<and>
   backoffMs (retryConfig (client (snd (perform (AddGuest ''s1'' (JObj [(''email'', JStr ''nobody'')]))
       (start (always (reply 503 ''Service Unavailable'' (Some (JObj []))))))))) = 1000"
  using perform_keeps_configuration
    [of "AddGuest ''s1'' (JObj [(''email'', JStr ''nobody'')])"
        "start (always (reply 503 ''Service Unavailable'' (Some (JObj []))))"]
  by (simp add: start_def demo_client_def)

text \<open>
  C10. Every request that \<^verbatim>\<open>addGuest\<close> sends (it sends at least one) is a POST whose body
  is the serialised object with the members \<open>guests\<close> and \<open>sendInvitation\<close>: \<open>guests\<close> is
  the argument itself when that is an array and the one-element array of the argument
  otherwise, so it is always an array, and \<open>sendInvitation\<close> is \<^verbatim>\<open>true\<close>.
\<close>

theorem addGuest_request_body:
  "\<exists>evs. events (snd (addGuest spaceId guestConfig w)) = events w @ evs \<and>
         (\<exists>url requestOptions. Fetch url requestOptions \<in> set evs) \<and>
         (\<forall>url requestOptions. Fetch url requestOptions \<in> set evs \<longrightarrow>
            http_method requestOptions = Some ''POST'' \<and>
            body requestOptions =
              Some (JSON_stringify
                     (JObj [(''guests'', if isArray guestConfig then guestConfig else JArr [guestConfig]),
                            (''sendInvitation'', JBool True)]))) \<and>
         isArray (if isArray guestConfig then guestConfig else JArr [guestConfig])"
proof -
  let ?options = "\<lparr>http_method = Some ''POST'', body = Some (JSON_stringify (addGuest_payload guestConfig)),
                   headers = None\<rparr>"
  let ?url = "baseUrl (client w) @ ''/spaces/'' @ spaceId @ ''/guests''"
  let ?ro = "merge_options (defaultOptions (client w)) ?options"
  have run: "snd (addGuest spaceId guestConfig w) = snd (makeRequest_loop ?url ?ro 0 w)"
    by (simp add: addGuest_snd makeRequest_def)
  have "\<exists>evs. events (snd (makeRequest_loop ?url ?ro 0 w)) = events w @ evs \<and>
          (\<forall>url' ro'. Fetch url' ro' \<in> set evs \<longrightarrow> url' = ?url \<and> ro' = ?ro) \<and>
          Fetch ?url ?ro \<in> set evs"
    using makeRequest_loop_events[of ?url ?ro 0 w] by simp
  then obtain evs where evs:
    "events (snd (makeRequest_loop ?url ?ro 0 w)) = events w @ evs"
    "\<forall>url' ro'. Fetch url' ro' \<in> set evs \<longrightarrow> url' = ?url \<and> ro' = ?ro"
    "Fetch ?url ?ro \<in> set evs"
    by blast
  have ro: "http_method ?ro = Some ''POST''"
    "body ?ro = Some (JSON_stringify
                     (JObj [(''guests'', if isArray guestConfig then guestConfig else JArr [guestConfig]),
                            (''sendInvitation'', JBool True)]))"
    by (simp_all add: merge_options_def addGuest_payload_def)
  show ?thesis
  proof (intro exI[of _ evs] conjI allI impI)
    show "events (snd (addGuest spaceId guestConfig w)) = events w @ evs"
      unfolding run by (rule evs(1))
    show "\<exists>url requestOptions. Fetch url requestOptions \<in> set evs"
      using evs(3) by blast
    show "isArray (if isArray guestConfig then guestConfig else JArr [guestConfig])"
      by simp
  next
    fix url requestOptions
    assume "Fetch url requestOptions \<in> set evs"
    then have same: "requestOptions = ?ro"
      using evs(2) by blast
    show "http_method requestOptions = Some ''POST''"
      unfolding same by (rule ro(1))
    show "body requestOptions =
            Some (JSON_stringify
                   (JObj [(''guests'', if isArray guestConfig then guestConfig else JArr [guestConfig]),
                          (''sendInvitation'', JBool True)]))"
      unfolding same by (rule ro(2))
  qed
qed

text \<open>A single guest object is wrapped into an array.\<close>

theorem addGuest_request_body_witness:
  "\<exists>evs. events (snd (addGuest ''s1'' (JObj [(''email'', JStr ''nobody'')])
                   (start (always (reply 200 ''OK'' (Some (JObj []))))))) = evs \<and>
         (\<exists>url requestOptions. Fetch url requestOptions \<in> set evs) \<and>
         (\<forall>url requestOptions. Fetch url requestOptions \<in> set evs \<longrightarrow>
            http_method requestOptions = Some ''POST'' \<and>
            body requestOptions =
              Some (JSON_stringify
                     (JObj [(''guests'', JArr [JObj [(''email'', JStr ''nobody'')]]),
                            (''sendInvitation'', JBool True)])))"
  using addGuest_request_body
    [of "''s1''" "JObj [(''email'', JStr ''nobody'')]" "start (always (reply 200 ''OK'' (Some (JObj []))))"]
  by (simp add: start_def)

section \<open>Claims about chunkArray\<close>

lemma slice_take_drop: "slice array i (i + n) = take n (drop i array)"
  by (simp add: slice_def drop_take)

text \<open>
  The loop entered at index \<open>i\<close> with a positive size returns, and what it adds to
  \<open>chunks\<close> is the rest of the array from \<open>i\<close> on, cut into full chunks and a last one.
\<close>

lemma chunkArray_loop_returns:
  assumes "0 < n"
  shows "\<exists>rest. chunkArray_loop array n i chunks = Some (chunks @ rest) \<and>
           concat rest = drop i array \<and>
           (\<forall>c \<in> set (butlast rest). length c = n) \<and>
           [] \<notin> set rest"
proof (induction "length array - i" arbitrary: i chunks rule: less_induct)
  case less
  show ?case
  proof (cases "i < length array")
    case False
    then show ?thesis
      by (subst chunkArray_loop.simps) simp
  next
    case True
    let ?c = "take n (drop i array)"
    have "length array - (i + n) < length array - i"
      using True assms by simp
    from less[OF this, of "chunks @ [?c]"] obtain rest where rest:
      "chunkArray_loop array n (i + n) (chunks @ [?c]) = Some ((chunks @ [?c]) @ rest)"
      "concat rest = drop (i + n) array"
      "\<forall>c \<in> set (butlast rest). length c = n"
      "[] \<notin> set rest"
      by blast
    have run: "chunkArray_loop array n i chunks = Some (chunks @ (?c # rest))"
      using True rest(1)
      by (subst chunkArray_loop.simps) (simp add: slice_take_drop)
    have "drop (i + n) array = drop n (drop i array)"
      by (simp add: add.commute)
    then have "concat (?c # rest) = take n (drop i array) @ drop n (drop i array)"
      using rest(2) by (simp only: concat.simps)
    then have cat: "concat (?c # rest) = drop i array"
      by (simp only: append_take_drop_id)
    have nonempty: "?c \<noteq> []"
      using True assms by simp
    have full: "length ?c = n" if "rest \<noteq> []"
    proof -
      from that rest(4) have "concat rest \<noteq> []"
        by (cases rest) auto
      with rest(2) have "i + n < length array" by simp
      then show ?thesis by simp
    qed
    have full_chunks: "\<forall>c \<in> set (butlast (?c # rest)). length c = n"
      using rest(3) full by (auto split: if_splits)
    have no_empty: "[] \<notin> set (?c # rest)"
      using nonempty rest(4) by (metis set_ConsD)
    show ?thesis
      by (intro exI[of _ "?c # rest"] conjI) (rule run cat full_chunks no_empty)+
  qed
qed

text \<open>
  C9. For every array and every positive chunk size, \<^verbatim>\<open>chunkArray\<close> returns; the chunks it
  returns, concatenated in order, are the array; every chunk except possibly the last has
  exactly the given length; and when the array is not empty no chunk is empty.
\<close>

theorem chunkArray_chunks:
  assumes "0 < n"
  shows "\<exists>chunks. chunkArray array n = Some chunks \<and>
           concat chunks = array \<and>
           (\<forall>c \<in> set (butlast chunks). length c = n) \<and>
           (array \<noteq> [] \<longrightarrow> [] \<notin> set chunks)"
  using chunkArray_loop_returns[OF assms, of array 0 "[]"]
  by (auto simp: chunkArray_def)

text \<open>Five elements in chunks of two.\<close>

lemma chunkArray_example:
  "chunkArray [1, 2, 3, 4, 5 :: nat] 2 = Some [[1, 2], [3, 4], [5]]"
  unfolding chunkArray_def
  by (subst chunkArray_loop.simps, simp add: slice_def)+

text \<open>The property at that input, where the result is known.\<close>

theorem chunkArray_chunks_witness:
  "(0::nat) < 2 \<and>
   (\<exists>chunks. chunkArray [1, 2, 3, 4, 5 :: nat] 2 = Some chunks \<and>
      chunks = [[1, 2], [3, 4], [5]] \<and>
      concat chunks = [1, 2, 3, 4, 5] \<and>
      (\<forall>c \<in> set (butlast chunks). length c = 2) \<and>
      [] \<notin> set chunks)"
  using chunkArray_chunks[of 2 "[1, 2, 3, 4, 5 :: nat]"] chunkArray_example
  by auto

section \<open>Claims about construction\<close>

text \<open>
  C4. The claim fails on the code: with an empty or absent argument the constructor takes
  the key from the environment variable \<^verbatim>\<open>GATHER_API_KEY\<close>, and fails only when that is
  empty or unset too. The failure is a plain \<^verbatim>\<open>Error\<close> with the message
  \<^verbatim>\<open>Gather.Town API key is required\<close>; the code has no \<^verbatim>\<open>ConfigurationError\<close>. The
  constructor makes no request in either case.
\<close>

theorem constructor_falls_back_to_environment:
  assumes "key = None \<or> key = Some []"
  shows "new_GatherAPIClient env key =
           (case env ''GATHER_API_KEY'' of
              None \<Rightarrow> Inl (Error ''Gather.Town API key is required'')
            | Some k \<Rightarrow>
                if k = [] then Inl (Error ''Gather.Town API key is required'')
                else Inr \<lparr>apiKey = k,
                          baseUrl = or_default (env ''GATHER_BASE_URL'') ''https://gather.town/api/v2'',
                          retryConfig = \<lparr>maxRetries = 3, backoffMs = 1000,
                                         retryCondition = default_retryCondition\<rparr>\<rparr>)"
  using assms by (auto simp: new_GatherAPIClient_def split: option.splits)

text \<open>No key anywhere: construction fails.\<close>

theorem constructor_falls_back_to_environment_witness:
  "new_GatherAPIClient (map_of []) (Some []) = Inl (Error ''Gather.Town API key is required'') \<and>
   name (Error ''Gather.Town API key is required'') = ''Error''"
  using constructor_falls_back_to_environment[of "Some []" "map_of []"]
  by (simp add: Error_def)

text \<open>
  C4, counterexample: the argument is the empty string and the environment holds a key.
  Construction succeeds, with the key of the environment.
\<close>

theorem constructor_empty_key_counterexample:
  "new_GatherAPIClient (map_of [(''GATHER_API_KEY'', ''key-from-env'')]) (Some []) =
     Inr \<lparr>apiKey = ''key-from-env'', baseUrl = ''https://gather.town/api/v2'',
          retryConfig = \<lparr>maxRetries = 3, backoffMs = 1000, retryCondition = default_retryCondition\<rparr>\<rparr>"
  by (simp add: new_GatherAPIClient_def or_default_def)

section \<open>Claims about the rate ledger\<close>

text \<open>The two outcomes of a check, in terms of the entries that are still in the window.\<close>

lemma checkLimit_outcomes:
  assumes "map_of (limits this) tier = Some limit"
  shows "checkLimit (Some tier) now this =
           (let kept = filter (\<lambda>timestamp. \<not> timestamp < now - window limit * 1000) (usage this)
            in if requests limit \<le> length kept
               then (Inl (RateLimitError (''Rate limit exceeded. Reset in '' @
                            (case Math_min kept of None \<Rightarrow> ''Infinity''
                             | Some oldest \<Rightarrow> Number_toString (oldest + window limit * 1000 - now)) @
                            ''ms'')),
                     this\<lparr>usage := kept\<rparr>)
               else (Inr True, this\<lparr>usage := map_set now kept\<rparr>))"
  using assms by (simp add: checkLimit_def Let_def split: option.splits)

text \<open>A full window refuses the call and does not record it.\<close>

lemma checkLimit_refuses_full_window:
  assumes "map_of (limits this) tier = Some limit"
    and "\<forall>timestamp \<in> set (usage this). now - window limit * 1000 \<le> timestamp"
    and "requests limit \<le> length (usage this)"
    and "usage this \<noteq> []"
  shows "\<exists>oldest. Math_min (usage this) = Some oldest \<and>
           checkLimit (Some tier) now this =
             (Inl (RateLimitError (''Rate limit exceeded. Reset in '' @
                     Number_toString (oldest + window limit * 1000 - now) @ ''ms'')),
              this)"
proof -
  have kept: "filter (\<lambda>timestamp. \<not> timestamp < now - window limit * 1000) (usage this) = usage this"
    using assms(2) by (auto simp: filter_id_conv)
  obtain oldest where oldest: "Math_min (usage this) = Some oldest"
    using assms(4) by (cases "usage this") auto
  show ?thesis
    using assms(3) oldest
    by (simp add: checkLimit_outcomes[OF assms(1)] kept)
qed

text \<open>Once an entry has left the window, a ledger that was within its quota accepts.\<close>

lemma checkLimit_accepts_after_window:
  assumes "map_of (limits this) tier = Some limit"
    and "length (usage this) \<le> requests limit"
    and "oldest \<in> set (usage this)"
    and "oldest + window limit * 1000 < now"
  shows "fst (checkLimit (Some tier) now this) = Inr True"
proof -
  let ?kept = "filter (\<lambda>timestamp. \<not> timestamp < now - window limit * 1000) (usage this)"
  have "length ?kept < length (usage this)"
    using assms(3,4) by (intro length_filter_less[of oldest]) auto
  with assms(2) have "\<not> requests limit \<le> length ?kept"
    by simp
  then show ?thesis
    by (simp add: checkLimit_outcomes[OF assms(1)] Let_def)
qed

text \<open>A second call within the same millisecond finds its timestamp already there.\<close>

lemma checkLimit_same_millisecond:
  assumes "limits this = limits new_RateLimitManager" and "usage this = [now]"
  shows "checkLimit (Some ''burst'') now this = (Inr True, this)"
proof -
  have "map_of (limits this) ''burst'' = Some \<lparr>requests = 100, window = 60\<rparr>"
    using assms(1) by (simp add: new_RateLimitManager_def)
  from checkLimit_outcomes[OF this, of now] assms(2) show ?thesis
    by (simp add: map_set_def)
qed

lemma checkLimit_calls_same_millisecond:
  assumes "limits this = limits new_RateLimitManager" and "usage this = [now]"
  shows "checkLimit_calls (Some ''burst'') (replicate n now) this = (replicate n (Inr True), this)"
  by (induction n) (simp_all add: checkLimit_same_millisecond[OF assms])

text \<open>
  C5. The ledger is a \<^verbatim>\<open>Map\<close> keyed by the timestamp, so calls that read the same
  millisecond from the clock share one entry and are counted once. On the \<^verbatim>\<open>burst\<close> tier
  (100 requests per 60 seconds) 101 calls within one millisecond all succeed, and the
  ledger holds a single entry afterwards: the 101st call is not refused.
\<close>

theorem checkLimit_same_millisecond_never_refuses:
  "checkLimit_calls (Some ''burst'') (replicate 101 1750000000000) new_RateLimitManager =
     (replicate 101 (Inr True), new_RateLimitManager\<lparr>usage := [1750000000000]\<rparr>)"
proof -
  have first: "checkLimit (Some ''burst'') 1750000000000 new_RateLimitManager =
                 (Inr True, new_RateLimitManager\<lparr>usage := [1750000000000]\<rparr>)"
    by (simp add: checkLimit_def new_RateLimitManager_def map_set_def)
  have "replicate 101 (1750000000000::int) = 1750000000000 # replicate 100 1750000000000"
    by (simp add: replicate_Suc[symmetric] del: replicate_Suc)
  moreover have "replicate 101 (Inr True :: js_error + bool) = Inr True # replicate 100 (Inr True)"
    by (simp add: replicate_Suc[symmetric] del: replicate_Suc)
  ultimately show ?thesis
    using first
      checkLimit_calls_same_millisecond
        [of "new_RateLimitManager\<lparr>usage := [1750000000000]\<rparr>" 1750000000000 100]
    by simp
qed

end
